theory Spec2Isabelle
  imports Complex_Main "HOL-Library.Word"
begin

section \<open>The micro:bit command-line poller (bluepy/microbit.py)\<close>

text \<open>
  The program is glue around the BLE transport library \<open>btle\<close>: three service wrappers
  that resolve a GATT service and its characteristics lazily and decode fixed payloads,
  and a command-line driver with a pairing flow and a polling flow. The library is an
  external collaborator. Every call into it is modelled as an entry of a call log
  together with an outcome that the library chooses: the outcome is an arbitrary
  function of the calls issued so far and of the call's arguments, so a theorem that
  quantifies over the \<open>transport\<close> holds for every deterministic device, mock or real.
\<close>

subsection \<open>Exceptions\<close>

text \<open>
  \<open>BTLEException\<close> carries the attributes \<open>code\<close> and \<open>estat\<close> that the pairing flow
  inspects; \<open>DISCONNECTED\<close> is the library's class constant, the other codes are the
  remaining ones, all different from it. \<open>AttributeError\<close> is what a method call on
  \<open>None\<close> raises, \<open>IndexError\<close> what \<open>[0]\<close> on an empty list raises, \<open>TypeError\<close> what
  \<open>ord\<close> raises on a string that is not one character long, \<open>StructError\<close> is
  \<open>struct.error\<close>, and \<open>SystemExit\<close> is raised by \<open>sys.exit\<close> with its argument.
  The specification's error kinds name these: NotEnabledError is the \<open>AttributeError\<close>
  of the missing reference, MalformedPayloadError the \<open>StructError\<close>, TransportError the
  \<open>BTLEException\<close>, and the argument and security rejections are \<open>SystemExit\<close> with a
  message.
\<close>

datatype btle_code = DISCONNECTED | COMM_ERROR | INTERNAL_ERROR | GATT_ERROR | MGMT_ERROR

datatype exit_arg = ExitStatus int | ExitMessage string

datatype exn =
    BTLEException btle_code "int option"
  | AttributeError
  | IndexError
  | TypeError
  | StructError
  | SystemExit exit_arg

subsection \<open>UUIDs\<close>

datatype uuid = UUID string

definition hex_digit :: "nat \<Rightarrow> char" where
  "hex_digit d = ''0123456789ABCDEF'' ! (d mod 16)"

fun hex_upper :: "nat \<Rightarrow> string" where
  "hex_upper n = (if n < 16 then [hex_digit n] else hex_upper (n div 16) @ [hex_digit n])"

definition zero_pad :: "nat \<Rightarrow> string \<Rightarrow> string" where
  "zero_pad width s = replicate (width - length s) (CHR ''0'') @ s"

text \<open>\<open>"E95D%04X-251D-470A-A062-FA1922DFA9A8" % val\<close>, for the non-negative codes below.\<close>

definition Microbit_UUID :: "nat \<Rightarrow> uuid" where
  "Microbit_UUID val =
     UUID (''E95D'' @ zero_pad 4 (hex_upper val) @ ''-251D-470A-A062-FA1922DFA9A8'')"

definition ACCEL_SERVICE :: nat where "ACCEL_SERVICE = 0x0753"
definition ACCEL_DATA :: nat where "ACCEL_DATA = 0xCA4B"
definition BTN_SERVICE :: nat where "BTN_SERVICE = 0x9882"
definition BTN_A_STATE :: nat where "BTN_A_STATE = 0xDA90"
definition BTN_B_STATE :: nat where "BTN_B_STATE = 0xDA91"
definition TEMP_SERVICE :: nat where "TEMP_SERVICE = 0x6100"
definition TEMP_DATA :: nat where "TEMP_DATA = 0x9250"

subsection \<open>The transport and its call log\<close>

type_synonym byte = "8 word"
type_synonym periph_ref = nat
type_synonym service_ref = nat
type_synonym char_ref = nat

text \<open>
  One entry per call into the library: the constructor \<open>Peripheral(addr, ADDR_TYPE_RANDOM,
  iface)\<close>, the methods of a peripheral, \<open>getCharacteristics\<close> of a service object and
  \<open>read\<close> of a characteristic object. References stand for the objects the library
  hands out.
\<close>

datatype call =
    Connect string "int option"
  | GetServiceByUUID periph_ref uuid
  | GetCharacteristics service_ref uuid
  | CharRead char_ref
  | SetSecurityLevel periph_ref string
  | Unpair periph_ref
  | Pair periph_ref
  | Disconnect periph_ref
  | WaitForNotifications periph_ref real

record transport =
  tr_connect :: "call list \<Rightarrow> string \<Rightarrow> int option \<Rightarrow> exn + periph_ref"
  tr_getServiceByUUID :: "call list \<Rightarrow> periph_ref \<Rightarrow> uuid \<Rightarrow> exn + service_ref"
  tr_getCharacteristics :: "call list \<Rightarrow> service_ref \<Rightarrow> uuid \<Rightarrow> exn + char_ref list"
  tr_read :: "call list \<Rightarrow> char_ref \<Rightarrow> exn + byte list"
  tr_setSecurityLevel :: "call list \<Rightarrow> periph_ref \<Rightarrow> string \<Rightarrow> exn + unit"
  tr_unpair :: "call list \<Rightarrow> periph_ref \<Rightarrow> exn + unit"
  tr_pair :: "call list \<Rightarrow> periph_ref \<Rightarrow> exn + unit"
  tr_disconnect :: "call list \<Rightarrow> periph_ref \<Rightarrow> exn + unit"
  tr_waitForNotifications :: "call list \<Rightarrow> periph_ref \<Rightarrow> real \<Rightarrow> exn + bool"

text \<open>Each operation returns the library's outcome and the log extended by the call.\<close>

definition getServiceByUUID ::
  "transport \<Rightarrow> periph_ref \<Rightarrow> uuid \<Rightarrow> call list \<Rightarrow> (exn + service_ref) \<times> call list" where
  "getServiceByUUID env p u lg = (tr_getServiceByUUID env lg p u, lg @ [GetServiceByUUID p u])"

definition getCharacteristics ::
  "transport \<Rightarrow> service_ref \<Rightarrow> uuid \<Rightarrow> call list \<Rightarrow> (exn + char_ref list) \<times> call list" where
  "getCharacteristics env s u lg =
     (tr_getCharacteristics env lg s u, lg @ [GetCharacteristics s u])"

definition char_read ::
  "transport \<Rightarrow> char_ref \<Rightarrow> call list \<Rightarrow> (exn + byte list) \<times> call list" where
  "char_read env c lg = (tr_read env lg c, lg @ [CharRead c])"

subsection \<open>Decoding\<close>

text \<open>Python 2 \<open>ord\<close>: the code of a one-character string, \<open>TypeError\<close> otherwise.\<close>

fun ord :: "byte list \<Rightarrow> exn + int" where
  "ord [b] = Inr (uint b)"
| "ord _ = Inl TypeError"

text \<open>One \<open>h\<close> field of \<open>struct.unpack("<hhh", ...)\<close>: low byte first, two's complement.\<close>

definition int16_le :: "byte \<Rightarrow> byte \<Rightarrow> int" where
  "int16_le lo hi =
     (let v = uint lo + 256 * uint hi in if v < 32768 then v else v - 65536)"

fun unpack_hhh :: "byte list \<Rightarrow> exn + (int \<times> int \<times> int)" where
  "unpack_hhh [x0, x1, y0, y1, z0, z1] =
     Inr (int16_le x0 x1, int16_le y0 y1, int16_le z0 z1)"
| "unpack_hhh _ = Inl StructError"

subsection \<open>TemperatureService\<close>

record TemperatureService =
  temp_periph :: periph_ref
  temp_service :: "service_ref option"
  temp_data :: "char_ref option"

definition TemperatureService_init :: "periph_ref \<Rightarrow> TemperatureService" where
  "TemperatureService_init p = \<lparr>temp_periph = p, temp_service = None, temp_data = None\<rparr>"

definition temp_svcUUID :: uuid where "temp_svcUUID = Microbit_UUID TEMP_SERVICE"
definition temp_dataUUID :: uuid where "temp_dataUUID = Microbit_UUID TEMP_DATA"

text \<open>
  \<open>self.service.getCharacteristics(uuid)[0]\<close>: a method call on \<open>None\<close> raises
  \<open>AttributeError\<close> before any call is issued, the library's failure propagates, an empty
  list raises \<open>IndexError\<close>.
\<close>

definition first_characteristic ::
  "transport \<Rightarrow> service_ref option \<Rightarrow> uuid \<Rightarrow> call list \<Rightarrow> (exn + char_ref) \<times> call list" where
  "first_characteristic env svc u lg =
     (case svc of
        None \<Rightarrow> (Inl AttributeError, lg)
      | Some s \<Rightarrow>
          (case getCharacteristics env s u lg of
             (Inl e, lg') \<Rightarrow> (Inl e, lg')
           | (Inr [], lg') \<Rightarrow> (Inl IndexError, lg')
           | (Inr (c # cs), lg') \<Rightarrow> (Inr c, lg')))"

text \<open>\<open>self.data.read()\<close>: \<open>AttributeError\<close> when the reference is \<open>None\<close>.\<close>

definition data_read ::
  "transport \<Rightarrow> char_ref option \<Rightarrow> call list \<Rightarrow> (exn + byte list) \<times> call list" where
  "data_read env d lg =
     (case d of None \<Rightarrow> (Inl AttributeError, lg) | Some c \<Rightarrow> char_read env c lg)"

text \<open>
  The statement \<open>if self.service is None: self.service = self.periph.getServiceByUUID(uuid)\<close>:
  the value of the field after it, or the exception that leaves the field as it was.
\<close>

definition resolve_service ::
  "transport \<Rightarrow> periph_ref \<Rightarrow> uuid \<Rightarrow> service_ref option \<Rightarrow> call list
     \<Rightarrow> (exn + service_ref option) \<times> call list" where
  "resolve_service env p u cur lg =
     (if cur = None
      then (case getServiceByUUID env p u lg of
              (Inl e, lg') \<Rightarrow> (Inl e, lg')
            | (Inr s, lg') \<Rightarrow> (Inr (Some s), lg'))
      else (Inr cur, lg))"

text \<open>
  The statement \<open>if self.data is None: self.data = self.service.getCharacteristics(uuid)[0]\<close>,
  likewise.
\<close>

definition resolve_characteristic ::
  "transport \<Rightarrow> service_ref option \<Rightarrow> uuid \<Rightarrow> char_ref option \<Rightarrow> call list
     \<Rightarrow> (exn + char_ref option) \<times> call list" where
  "resolve_characteristic env svc u cur lg =
     (if cur = None
      then (case first_characteristic env svc u lg of
              (Inl e, lg') \<Rightarrow> (Inl e, lg')
            | (Inr c, lg') \<Rightarrow> (Inr (Some c), lg'))
      else (Inr cur, lg))"

definition TemperatureService_enable ::
  "transport \<Rightarrow> TemperatureService \<Rightarrow> call list
     \<Rightarrow> (exn + unit) \<times> TemperatureService \<times> call list" where
  "TemperatureService_enable env self lg =
     (case resolve_service env (temp_periph self) temp_svcUUID (temp_service self) lg of
        (Inl e, lg1) \<Rightarrow> (Inl e, self, lg1)
      | (Inr s, lg1) \<Rightarrow>
          (case resolve_characteristic env s temp_dataUUID (temp_data self) lg1 of
             (Inl e, lg2) \<Rightarrow> (Inl e, self\<lparr>temp_service := s\<rparr>, lg2)
           | (Inr d, lg2) \<Rightarrow> (Inr (), self\<lparr>temp_service := s, temp_data := d\<rparr>, lg2)))"

definition TemperatureService_read ::
  "transport \<Rightarrow> TemperatureService \<Rightarrow> call list \<Rightarrow> (exn + int) \<times> call list" where
  "TemperatureService_read env self lg =
     (case data_read env (temp_data self) lg of
        (Inl e, lg') \<Rightarrow> (Inl e, lg')
      | (Inr bs, lg') \<Rightarrow> (ord bs, lg'))"

subsection \<open>AcceleratorService\<close>

record AcceleratorService =
  accel_periph :: periph_ref
  accel_service :: "service_ref option"
  accel_data :: "char_ref option"

definition AcceleratorService_init :: "periph_ref \<Rightarrow> AcceleratorService" where
  "AcceleratorService_init p = \<lparr>accel_periph = p, accel_service = None, accel_data = None\<rparr>"

definition accel_svcUUID :: uuid where "accel_svcUUID = Microbit_UUID ACCEL_SERVICE"
definition accel_dataUUID :: uuid where "accel_dataUUID = Microbit_UUID ACCEL_DATA"

definition AcceleratorService_enable ::
  "transport \<Rightarrow> AcceleratorService \<Rightarrow> call list
     \<Rightarrow> (exn + unit) \<times> AcceleratorService \<times> call list" where
  "AcceleratorService_enable env self lg =
     (case resolve_service env (accel_periph self) accel_svcUUID (accel_service self) lg of
        (Inl e, lg1) \<Rightarrow> (Inl e, self, lg1)
      | (Inr s, lg1) \<Rightarrow>
          (case resolve_characteristic env s accel_dataUUID (accel_data self) lg1 of
             (Inl e, lg2) \<Rightarrow> (Inl e, self\<lparr>accel_service := s\<rparr>, lg2)
           | (Inr d, lg2) \<Rightarrow> (Inr (), self\<lparr>accel_service := s, accel_data := d\<rparr>, lg2)))"

definition AcceleratorService_read ::
  "transport \<Rightarrow> AcceleratorService \<Rightarrow> call list \<Rightarrow> (exn + (int \<times> int \<times> int)) \<times> call list" where
  "AcceleratorService_read env self lg =
     (case data_read env (accel_data self) lg of
        (Inl e, lg') \<Rightarrow> (Inl e, lg')
      | (Inr bs, lg') \<Rightarrow> (unpack_hhh bs, lg'))"

subsection \<open>ButtonsService\<close>

record ButtonsService =
  btn_periph :: periph_ref
  btn_service :: "service_ref option"
  btn_dataA :: "char_ref option"
  btn_dataB :: "char_ref option"

definition ButtonsService_init :: "periph_ref \<Rightarrow> ButtonsService" where
  "ButtonsService_init p =
     \<lparr>btn_periph = p, btn_service = None, btn_dataA = None, btn_dataB = None\<rparr>"

definition btn_svcUUID :: uuid where "btn_svcUUID = Microbit_UUID BTN_SERVICE"
definition dataUUID_btnA :: uuid where "dataUUID_btnA = Microbit_UUID BTN_A_STATE"
definition dataUUID_btnB :: uuid where "dataUUID_btnB = Microbit_UUID BTN_B_STATE"

definition ButtonsService_enable ::
  "transport \<Rightarrow> ButtonsService \<Rightarrow> call list
     \<Rightarrow> (exn + unit) \<times> ButtonsService \<times> call list" where
  "ButtonsService_enable env self lg =
     (case resolve_service env (btn_periph self) btn_svcUUID (btn_service self) lg of
        (Inl e, lg1) \<Rightarrow> (Inl e, self, lg1)
      | (Inr s, lg1) \<Rightarrow>
          (case resolve_characteristic env s dataUUID_btnA (btn_dataA self) lg1 of
             (Inl e, lg2) \<Rightarrow> (Inl e, self\<lparr>btn_service := s\<rparr>, lg2)
           | (Inr a, lg2) \<Rightarrow>
               (case resolve_characteristic env s dataUUID_btnB (btn_dataB self) lg2 of
                  (Inl e, lg3) \<Rightarrow> (Inl e, self\<lparr>btn_service := s, btn_dataA := a\<rparr>, lg3)
                | (Inr b, lg3) \<Rightarrow>
                    (Inr (), self\<lparr>btn_service := s, btn_dataA := a, btn_dataB := b\<rparr>, lg3))))"

definition read_btnA ::
  "transport \<Rightarrow> ButtonsService \<Rightarrow> call list \<Rightarrow> (exn + int) \<times> call list" where
  "read_btnA env self lg =
     (case data_read env (btn_dataA self) lg of
        (Inl e, lg') \<Rightarrow> (Inl e, lg')
      | (Inr bs, lg') \<Rightarrow> (ord bs, lg'))"

definition read_btnB ::
  "transport \<Rightarrow> ButtonsService \<Rightarrow> call list \<Rightarrow> (exn + int) \<times> call list" where
  "read_btnB env self lg =
     (case data_read env (btn_dataB self) lg of
        (Inl e, lg') \<Rightarrow> (Inl e, lg')
      | (Inr bs, lg') \<Rightarrow> (ord bs, lg'))"

text \<open>\<open>(self.read_btnA(), self.read_btnB())\<close>: A first, then B.\<close>

definition ButtonsService_read ::
  "transport \<Rightarrow> ButtonsService \<Rightarrow> call list \<Rightarrow> (exn + (int \<times> int)) \<times> call list" where
  "ButtonsService_read env self lg =
     (case read_btnA env self lg of
        (Inl e, lg1) \<Rightarrow> (Inl e, lg1)
      | (Inr a, lg1) \<Rightarrow>
          (case read_btnB env self lg1 of
             (Inl e, lg2) \<Rightarrow> (Inl e, lg2)
           | (Inr b, lg2) \<Rightarrow> (Inr (a, b), lg2)))"

subsection \<open>Output formatting\<close>

definition dec_digit :: "nat \<Rightarrow> char" where
  "dec_digit d = ''0123456789'' ! (d mod 10)"

fun dec_digits :: "nat \<Rightarrow> string" where
  "dec_digits n = (if n < 10 then [dec_digit n] else dec_digits (n div 10) @ [dec_digit n])"

text \<open>\<open>"%d" % i\<close>.\<close>

definition str_d :: "int \<Rightarrow> string" where
  "str_d i = (if i < 0 then CHR ''-'' # dec_digits (nat (- i)) else dec_digits (nat i))"

text \<open>\<open>"{:05d}".format(i)\<close>: zero padding to five characters, the sign included.\<close>

definition format_05d :: "int \<Rightarrow> string" where
  "format_05d i =
     (if i < 0 then CHR ''-'' # zero_pad 4 (dec_digits (nat (- i)))
      else zero_pad 5 (dec_digits (nat i)))"

subsection \<open>The process state and the remaining library calls\<close>

text \<open>
  What the driver changes outside its own variables: the calls issued to the library,
  the lines printed to standard output, and the library's global \<open>btle.Debugging\<close>.
\<close>

record world =
  calls :: "call list"
  stdout :: "string list"
  Debugging :: bool

definition world_init :: world where
  "world_init = \<lparr>calls = [], stdout = [], Debugging = False\<rparr>"

definition print_line :: "string \<Rightarrow> world \<Rightarrow> world" where
  "print_line s w = w\<lparr>stdout := stdout w @ [s]\<rparr>"

definition Peripheral_init ::
  "transport \<Rightarrow> string \<Rightarrow> int option \<Rightarrow> world \<Rightarrow> (exn + periph_ref) \<times> world" where
  "Peripheral_init env addr iface w =
     (tr_connect env (calls w) addr iface, w\<lparr>calls := calls w @ [Connect addr iface]\<rparr>)"

definition setSecurityLevel ::
  "transport \<Rightarrow> periph_ref \<Rightarrow> string \<Rightarrow> world \<Rightarrow> (exn + unit) \<times> world" where
  "setSecurityLevel env p level w =
     (tr_setSecurityLevel env (calls w) p level,
      w\<lparr>calls := calls w @ [SetSecurityLevel p level]\<rparr>)"

definition unpair :: "transport \<Rightarrow> periph_ref \<Rightarrow> world \<Rightarrow> (exn + unit) \<times> world" where
  "unpair env p w = (tr_unpair env (calls w) p, w\<lparr>calls := calls w @ [Unpair p]\<rparr>)"

definition pair :: "transport \<Rightarrow> periph_ref \<Rightarrow> world \<Rightarrow> (exn + unit) \<times> world" where
  "pair env p w = (tr_pair env (calls w) p, w\<lparr>calls := calls w @ [Pair p]\<rparr>)"

definition disconnect :: "transport \<Rightarrow> periph_ref \<Rightarrow> world \<Rightarrow> (exn + unit) \<times> world" where
  "disconnect env p w =
     (tr_disconnect env (calls w) p, w\<lparr>calls := calls w @ [Disconnect p]\<rparr>)"

definition waitForNotifications ::
  "transport \<Rightarrow> periph_ref \<Rightarrow> real \<Rightarrow> world \<Rightarrow> (exn + bool) \<times> world" where
  "waitForNotifications env p timeout w =
     (tr_waitForNotifications env (calls w) p timeout,
      w\<lparr>calls := calls w @ [WaitForNotifications p timeout]\<rparr>)"

subsection \<open>Microbit\<close>

record Microbit =
  mb_periph :: periph_ref
  temperature :: TemperatureService
  accelerator :: AcceleratorService
  buttons :: ButtonsService

text \<open>
  \<open>Microbit(addr)\<close>: the base constructor connects with \<open>iface=None\<close>; the three
  wrappers start unresolved.
\<close>

definition Microbit_init ::
  "transport \<Rightarrow> string \<Rightarrow> world \<Rightarrow> (exn + Microbit) \<times> world" where
  "Microbit_init env addr w =
     (case Peripheral_init env addr None w of
        (Inl e, w') \<Rightarrow> (Inl e, w')
      | (Inr p, w') \<Rightarrow>
          (Inr \<lparr>mb_periph = p,
                temperature = TemperatureService_init p,
                accelerator = AcceleratorService_init p,
                buttons = ButtonsService_init p\<rparr>, w'))"

subsection \<open>The command line\<close>

datatype security = NoPairing | JustWorks | Passkey | Low | Medium | High

text \<open>The namespace \<open>parser.parse_args()\<close> returns, one field per argument.\<close>

record args =
  arg_mac_address :: string
  arg_count :: int
  arg_t :: real
  arg_temperature :: bool
  arg_accelerator :: bool
  arg_buttons :: bool
  arg_security :: security
  arg_pair :: bool
  arg_interface :: int
  arg_debug :: bool

definition services_requested :: "args \<Rightarrow> bool" where
  "services_requested a \<longleftrightarrow> arg_temperature a \<or> arg_accelerator a \<or> arg_buttons a"

subsection \<open>The pairing flow\<close>

text \<open>What follows the \<open>try\<close> around \<open>p.unpair()\<close>, from \<open>p.disconnect()\<close> on.\<close>

definition pair_after_unpair ::
  "transport \<Rightarrow> args \<Rightarrow> periph_ref \<Rightarrow> world \<Rightarrow> (exn + unit) \<times> world" where
  "pair_after_unpair env a p w =
     (case disconnect env p w of
        (Inl e, w1) \<Rightarrow> (Inl e, w1)
      | (Inr u, w1) \<Rightarrow>
          (case Peripheral_init env (arg_mac_address a) (Some (arg_interface a)) w1 of
             (Inl e, w2) \<Rightarrow> (Inl e, w2)
           | (Inr p', w2) \<Rightarrow>
               (case pair env p' w2 of
                  (Inl e, w3) \<Rightarrow> (Inl e, w3)
                | (Inr u, w3) \<Rightarrow>
                    (Inl (SystemExit (ExitStatus 0)), print_line ''Paired.'' w3))))"

definition pair_flow :: "transport \<Rightarrow> args \<Rightarrow> world \<Rightarrow> (exn + unit) \<times> world" where
  "pair_flow env a w =
     (case Peripheral_init env (arg_mac_address a) (Some (arg_interface a)) w of
        (Inl e, w1) \<Rightarrow> (Inl e, w1)
      | (Inr p, w1) \<Rightarrow>
          (case unpair env p w1 of
             (Inl (BTLEException code estat), w2) \<Rightarrow>
               if code = DISCONNECTED \<and> estat = Some 6
               then pair_after_unpair env a p
                      (print_line ''unpair failed: not-paired (which is OK)'' w2)
               else (Inl (BTLEException code estat), w2)
           | (Inl e, w2) \<Rightarrow> (Inl e, w2)
           | (Inr u, w2) \<Rightarrow> pair_after_unpair env a p w2))"

subsection \<open>The polling flow\<close>

definition set_security ::
  "transport \<Rightarrow> args \<Rightarrow> Microbit \<Rightarrow> world \<Rightarrow> (exn + unit) \<times> world" where
  "set_security env a microbit w =
     (if arg_security a \<in> set [Low, NoPairing]
      then setSecurityLevel env (mb_periph microbit) ''low'' w
      else if arg_security a \<in> set [JustWorks, Medium]
      then setSecurityLevel env (mb_periph microbit) ''medium'' w
      else (Inl (SystemExit (ExitMessage
        ''error: microbit with Passkey security mode is not currently supported in this program'')),
        w))"

text \<open>The three \<open>if args.X: microbit.X.enable()\<close> statements, in their order.\<close>

definition enable_selected ::
  "transport \<Rightarrow> args \<Rightarrow> Microbit \<Rightarrow> call list \<Rightarrow> (exn + unit) \<times> Microbit \<times> call list" where
  "enable_selected env a m lg =
     (case (if arg_temperature a
            then (case TemperatureService_enable env (temperature m) lg of
                    (r, ts, lg1) \<Rightarrow> (r, m\<lparr>temperature := ts\<rparr>, lg1))
            else (Inr (), m, lg)) of
        (Inl e, m1, lg1) \<Rightarrow> (Inl e, m1, lg1)
      | (Inr u, m1, lg1) \<Rightarrow>
          (case (if arg_accelerator a
                 then (case AcceleratorService_enable env (accelerator m1) lg1 of
                         (r, acs, lg2) \<Rightarrow> (r, m1\<lparr>accelerator := acs\<rparr>, lg2))
                 else (Inr (), m1, lg1)) of
             (Inl e, m2, lg2) \<Rightarrow> (Inl e, m2, lg2)
           | (Inr u, m2, lg2) \<Rightarrow>
               (if arg_buttons a
                then (case ButtonsService_enable env (buttons m2) lg2 of
                        (r, bs, lg3) \<Rightarrow> (r, m2\<lparr>buttons := bs\<rparr>, lg3))
                else (Inr (), m2, lg2))))"

text \<open>The three statements of the loop body that read a sensor and print its line.\<close>

definition poll_temperature ::
  "transport \<Rightarrow> args \<Rightarrow> Microbit \<Rightarrow> world \<Rightarrow> (exn + unit) \<times> world" where
  "poll_temperature env a m w =
     (if arg_temperature a
      then (case TemperatureService_read env (temperature m) (calls w) of
              (Inl e, lg) \<Rightarrow> (Inl e, w\<lparr>calls := lg\<rparr>)
            | (Inr v, lg) \<Rightarrow>
                (Inr (), print_line (''Temperature: '' @ str_d v @ ''C'') (w\<lparr>calls := lg\<rparr>)))
      else (Inr (), w))"

definition poll_accelerator ::
  "transport \<Rightarrow> args \<Rightarrow> Microbit \<Rightarrow> world \<Rightarrow> (exn + unit) \<times> world" where
  "poll_accelerator env a m w =
     (if arg_accelerator a
      then (case AcceleratorService_read env (accelerator m) (calls w) of
              (Inl e, lg) \<Rightarrow> (Inl e, w\<lparr>calls := lg\<rparr>)
            | (Inr (x, y, z), lg) \<Rightarrow>
                (Inr (),
                 print_line (''Accelerator: x: '' @ format_05d x @ ''   y: '' @ format_05d y
                             @ ''   z: '' @ format_05d z) (w\<lparr>calls := lg\<rparr>)))
      else (Inr (), w))"

definition poll_buttons ::
  "transport \<Rightarrow> args \<Rightarrow> Microbit \<Rightarrow> world \<Rightarrow> (exn + unit) \<times> world" where
  "poll_buttons env a m w =
     (if arg_buttons a
      then (case ButtonsService_read env (buttons m) (calls w) of
              (Inl e, lg) \<Rightarrow> (Inl e, w\<lparr>calls := lg\<rparr>)
            | (Inr (x, y), lg) \<Rightarrow>
                (Inr (),
                 print_line (''buttons: A: '' @ str_d x @ ''   B: '' @ str_d y)
                   (w\<lparr>calls := lg\<rparr>)))
      else (Inr (), w))"

definition poll_round ::
  "transport \<Rightarrow> args \<Rightarrow> Microbit \<Rightarrow> world \<Rightarrow> (exn + unit) \<times> world" where
  "poll_round env a m w =
     (case poll_temperature env a m w of
        (Inl e, w1) \<Rightarrow> (Inl e, w1)
      | (Inr u, w1) \<Rightarrow>
          (case poll_accelerator env a m w1 of
             (Inl e, w2) \<Rightarrow> (Inl e, w2)
           | (Inr u, w2) \<Rightarrow> poll_buttons env a m w2))"

text \<open>
  \<open>while True\<close>: a round of reads, then \<open>break\<close> when \<open>counter >= args.count\<close>, else
  \<open>counter += 1\<close> and the wait. The distance from \<open>counter\<close> to \<open>args.count\<close> shrinks
  with every pass, so the loop ends.
\<close>

function poll_loop ::
  "transport \<Rightarrow> args \<Rightarrow> Microbit \<Rightarrow> int \<Rightarrow> world \<Rightarrow> (exn + unit) \<times> world" where
  "poll_loop env a m counter w =
     (case poll_round env a m w of
        (Inl e, w1) \<Rightarrow> (Inl e, w1)
      | (Inr u, w1) \<Rightarrow>
          if counter \<ge> arg_count a then (Inr (), w1)
          else (case waitForNotifications env (mb_periph m) (arg_t a) w1 of
                  (Inl e, w2) \<Rightarrow> (Inl e, w2)
                | (Inr b, w2) \<Rightarrow> poll_loop env a m (counter + 1) w2))"
  by pat_completeness auto
termination
  by (relation "measure (\<lambda>(env, a, m, counter, w). nat (arg_count a - counter))") auto

text \<open>The body of the \<open>try\<close>.\<close>

definition poll_try :: "transport \<Rightarrow> args \<Rightarrow> Microbit \<Rightarrow> world \<Rightarrow> (exn + unit) \<times> world" where
  "poll_try env a m w =
     (let w0 = print_line ''Enabling selected sensors...'' w in
      case enable_selected env a m (calls w0) of
        (Inl e, m1, lg1) \<Rightarrow> (Inl e, w0\<lparr>calls := lg1\<rparr>)
      | (Inr u, m1, lg1) \<Rightarrow> poll_loop env a m1 1 (w0\<lparr>calls := lg1\<rparr>))"

text \<open>
  \<open>try ... finally: microbit.disconnect()\<close>: the disconnect runs however the body ended;
  its own exception replaces the body's, otherwise the body's outcome stands.
\<close>

definition poll_flow :: "transport \<Rightarrow> args \<Rightarrow> world \<Rightarrow> (exn + unit) \<times> world" where
  "poll_flow env a w =
     (case Microbit_init env (arg_mac_address a)
             (print_line (''Connecting to '' @ arg_mac_address a) w) of
        (Inl e, w1) \<Rightarrow> (Inl e, w1)
      | (Inr microbit, w1) \<Rightarrow>
          (case set_security env a microbit (print_line ''Setting security'' w1) of
             (Inl e, w2) \<Rightarrow> (Inl e, w2)
           | (Inr u, w2) \<Rightarrow>
               (case poll_try env a microbit w2 of
                  (r, w3) \<Rightarrow>
                    (case disconnect env (mb_periph microbit) w3 of
                       (Inl e, w4) \<Rightarrow> (Inl e, w4)
                     | (Inr u, w4) \<Rightarrow> (r, w4)))))"

subsection \<open>main and the exit status\<close>

definition main :: "transport \<Rightarrow> args \<Rightarrow> (exn + unit) \<times> world" where
  "main env a =
     (if arg_pair a \<and> services_requested a
      then (Inl (SystemExit (ExitMessage
        ''error: --pair can not be combined with other services (e.g --buttons)'')),
        world_init)
      else if \<not> arg_pair a \<and> \<not> services_requested a
      then (Inl (SystemExit (ExitMessage
        ''no action requested (e.g --pair or --temperature/--accelerator/--buttons), aborting.'')),
        world_init)
      else
        let w = (if arg_debug a then world_init\<lparr>Debugging := True\<rparr> else world_init) in
        if arg_pair a then pair_flow env a w else poll_flow env a w)"

text \<open>
  The status the interpreter exits with: 0 when \<open>main\<close> returns, the low byte of the
  argument of \<open>sys.exit\<close> when that is an integer, and 1 when \<open>sys.exit\<close> was given a
  message (which goes to standard error) or another exception escaped.
\<close>

fun exit_status :: "exn + unit \<Rightarrow> int" where
  "exit_status (Inr u) = 0"
| "exit_status (Inl (SystemExit (ExitStatus n))) = n mod 256"
| "exit_status (Inl e) = 1"

subsection \<open>A device on which every call succeeds\<close>

text \<open>
  The mock transport of the examples: every call succeeds, the peripheral is 0, every
  service is 1, every service has the one characteristic 2, and every read returns the
  given payload.
\<close>

definition mock_device :: "byte list \<Rightarrow> transport" where
  "mock_device payload =
     \<lparr>tr_connect = (\<lambda>h addr iface. Inr 0),
      tr_getServiceByUUID = (\<lambda>h p u. Inr 1),
      tr_getCharacteristics = (\<lambda>h s u. Inr [2]),
      tr_read = (\<lambda>h c. Inr payload),
      tr_setSecurityLevel = (\<lambda>h p l. Inr ()),
      tr_unpair = (\<lambda>h p. Inr ()),
      tr_pair = (\<lambda>h p. Inr ()),
      tr_disconnect = (\<lambda>h p. Inr ()),
      tr_waitForNotifications = (\<lambda>h p t. Inr False)\<rparr>"

subsection \<open>The defaults of the argument parser\<close>

text \<open>The namespace for a command line that gives the address and nothing else.\<close>

definition default_args :: "string \<Rightarrow> args" where
  "default_args mac =
     \<lparr>arg_mac_address = mac, arg_count = 1, arg_t = 1,
      arg_temperature = False, arg_accelerator = False, arg_buttons = False,
      arg_security = NoPairing, arg_pair = False, arg_interface = 0, arg_debug = False\<rparr>"

subsection \<open>Devices that fail at one step\<close>

text \<open>The mock device, except that \<open>unpair\<close> raises the given exception.\<close>

definition unpair_raises :: "exn \<Rightarrow> transport" where
  "unpair_raises e = (mock_device [])\<lparr>tr_unpair := (\<lambda>h p. Inl e)\<rparr>"

text \<open>The mock device, except that \<open>setSecurityLevel\<close> raises the given exception.\<close>

definition security_raises :: "exn \<Rightarrow> transport" where
  "security_raises e = (mock_device [])\<lparr>tr_setSecurityLevel := (\<lambda>h p l. Inl e)\<rparr>"

text \<open>The mock device, except that \<open>waitForNotifications\<close> raises the given exception.\<close>

definition wait_raises :: "byte list \<Rightarrow> exn \<Rightarrow> transport" where
  "wait_raises payload e =
     (mock_device payload)\<lparr>tr_waitForNotifications := (\<lambda>h p t. Inl e)\<rparr>"

text \<open>
  The mock device without the button B characteristic: the lookup of that UUID returns
  the empty list; every read returns the byte 1.
\<close>

definition btnB_missing :: transport where
  "btnB_missing =
     (mock_device [1])\<lparr>tr_getCharacteristics :=
        (\<lambda>h s u. if u = dataUUID_btnB then Inr [] else Inr [2])\<rparr>"

text \<open>
  The device object after \<open>microbit.temperature.enable()\<close> on the mock device: the
  temperature wrapper is resolved, the other two are not.
\<close>

definition mock_microbit :: Microbit where
  "mock_microbit =
     \<lparr>mb_periph = 0,
      temperature = \<lparr>temp_periph = 0, temp_service = Some 1, temp_data = Some 2\<rparr>,
      accelerator = AcceleratorService_init 0,
      buttons = ButtonsService_init 0\<rparr>"

subsection \<open>Sensor calls, control calls and lines per round\<close>

text \<open>
  The calls that the wrappers and the polling loop issue: lookups, characteristic reads
  and the wait between rounds. The others (connect, security level, pairing, disconnect)
  are the control calls of a connection.
\<close>

fun sensor_call :: "call \<Rightarrow> bool" where
  "sensor_call (GetServiceByUUID p u) = True"
| "sensor_call (GetCharacteristics s u) = True"
| "sensor_call (CharRead c) = True"
| "sensor_call (WaitForNotifications p t) = True"
| "sensor_call _ = False"

definition control_calls :: "call list \<Rightarrow> call list" where
  "control_calls lg = filter (\<lambda>c. \<not> sensor_call c) lg"

text \<open>The lines one round of the loop prints: one for each requested sensor.\<close>

definition lines_per_round :: "args \<Rightarrow> nat" where
  "lines_per_round a =
     (if arg_temperature a then 1 else 0) + (if arg_accelerator a then 1 else 0)
     + (if arg_buttons a then 1 else 0)"

subsection \<open>Wrappers on which no call of enable has succeeded yet\<close>

text \<open>
  The states a wrapper can be in before a successful \<open>enable()\<close>: the state the
  constructor leaves, and every state a failed \<open>enable()\<close> leaves when called in such a
  state, on any device and at any point of the call log.
\<close>

inductive temp_never_enabled :: "TemperatureService \<Rightarrow> bool" where
  temp_fresh: "temp_never_enabled (TemperatureService_init p)"
| temp_failed: "temp_never_enabled self \<Longrightarrow>
     TemperatureService_enable env self lg = (Inl e, self', lg') \<Longrightarrow>
     temp_never_enabled self'"

inductive accel_never_enabled :: "AcceleratorService \<Rightarrow> bool" where
  accel_fresh: "accel_never_enabled (AcceleratorService_init p)"
| accel_failed: "accel_never_enabled self \<Longrightarrow>
     AcceleratorService_enable env self lg = (Inl e, self', lg') \<Longrightarrow>
     accel_never_enabled self'"

inductive btn_never_enabled :: "ButtonsService \<Rightarrow> bool" where
  btn_fresh: "btn_never_enabled (ButtonsService_init p)"
| btn_failed: "btn_never_enabled self \<Longrightarrow>
     ButtonsService_enable env self lg = (Inl e, self', lg') \<Longrightarrow>
     btn_never_enabled self'"

section \<open>Properties\<close>

declare poll_loop.simps [simp del]

subsection \<open>Temperature decoding\<close>

lemma uint_byte_of_nat: "n < 256 \<Longrightarrow> uint (word_of_nat n :: byte) = int n"
  by (simp add: uint_nat unat_of_nat)

text \<open>
  C2. On a wrapper whose characteristic is resolved, \<open>read()\<close> issues exactly one
  characteristic read (the log grows by that one call) and, when the device answers with
  the single byte of value \<open>n\<close>, \<open>0 \<le> n \<le> 255\<close>, the reading is \<open>n\<close>: the byte is taken
  as unsigned.
\<close>

theorem temperature_read_unsigned:
  assumes "temp_data self = Some c" and "n < 256"
    and "tr_read env lg c = Inr [word_of_nat n]"
  shows "TemperatureService_read env self lg = (Inr (int n), lg @ [CharRead c])"
  using assms
  by (simp add: TemperatureService_read_def data_read_def char_read_def uint_byte_of_nat)

text \<open>The bytes \<open>0x17\<close>, \<open>0x00\<close> and \<open>0xFF\<close> read as 23, 0 and 255.\<close>

theorem temperature_read_unsigned_witness:
  "TemperatureService_read (mock_device [0x17])
     \<lparr>temp_periph = 0, temp_service = Some 1, temp_data = Some 2\<rparr> [] = (Inr 23, [CharRead 2])
   \<and> TemperatureService_read (mock_device [0x00])
     \<lparr>temp_periph = 0, temp_service = Some 1, temp_data = Some 2\<rparr> [] = (Inr 0, [CharRead 2])
   \<and> TemperatureService_read (mock_device [0xFF])
     \<lparr>temp_periph = 0, temp_service = Some 1, temp_data = Some 2\<rparr> [] = (Inr 255, [CharRead 2])"
  using
    temperature_read_unsigned [of "\<lparr>temp_periph = 0, temp_service = Some 1, temp_data = Some 2\<rparr>"
      2 23 "mock_device [0x17]" "[]"]
    temperature_read_unsigned [of "\<lparr>temp_periph = 0, temp_service = Some 1, temp_data = Some 2\<rparr>"
      2 0 "mock_device [0x00]" "[]"]
    temperature_read_unsigned [of "\<lparr>temp_periph = 0, temp_service = Some 1, temp_data = Some 2\<rparr>"
      2 255 "mock_device [0xFF]" "[]"]
  by (simp add: mock_device_def)

subsection \<open>Accelerometer decoding\<close>

text \<open>
  \<open>int16_le\<close> is the two's complement reading of the 16-bit word whose low byte comes
  first.
\<close>

lemma uint_word_cat_bytes:
  "uint (word_cat hi lo :: 16 word) = uint lo + 256 * uint hi" for lo hi :: byte
proof -
  have b: "0 \<le> uint lo \<and> uint lo < 256" "0 \<le> uint hi \<and> uint hi < 256"
    using uint_lt2p [of lo] uint_lt2p [of hi] by simp_all
  have "concat_bit 8 (uint lo) (uint hi) = uint lo + 256 * uint hi"
    using b by (simp add: concat_bit_eq take_bit_int_eq_self push_bit_eq_mult)
  moreover have "take_bit 16 (uint lo + 256 * uint hi) = uint lo + 256 * uint hi"
    using b by (intro take_bit_int_eq_self) auto
  moreover have "(word_cat hi lo :: 16 word) = word_of_int (concat_bit 8 (uint lo) (uint hi))"
    by (subst word_cat_eq') simp
  then have "uint (word_cat hi lo :: 16 word) = take_bit 16 (concat_bit 8 (uint lo) (uint hi))"
    by (simp only: uint_word_of_int_eq) simp
  ultimately show ?thesis
    by (simp only:)
qed

lemma int16_le_sint: "int16_le lo hi = sint (word_cat hi lo :: 16 word)"
proof -
  have b: "0 \<le> uint lo \<and> uint lo < 256" "0 \<le> uint hi \<and> uint hi < 256"
    using uint_lt2p [of lo] uint_lt2p [of hi] by simp_all
  define v where "v = uint lo + 256 * uint hi"
  have v: "0 \<le> v" "v < 65536" using b by (auto simp: v_def)
  have "sint (word_cat hi lo :: 16 word) = signed_take_bit 15 v"
    by (simp add: sint_uint uint_word_cat_bytes v_def)
  also have "\<dots> = take_bit 16 (v + 32768) - 32768"
    by (simp add: signed_take_bit_eq_take_bit_shift)
  also have "\<dots> = (if v < 32768 then v else v - 65536)"
  proof (cases "v < 32768")
    case True
    then have "take_bit 16 (v + 32768) = v + 32768"
      using v by (intro take_bit_int_eq_self) auto
    with True show ?thesis by simp
  next
    case False
    have "v + 32768 = (v - 32768) + 65536"
      by simp
    then have "(v + 32768) mod 65536 = (v - 32768) mod 65536"
      by (simp only: mod_add_self2)
    also have "\<dots> = v - 32768"
      using v False by (intro mod_pos_pos_trivial) simp_all
    finally have "(v + 32768) mod 65536 = v + 32768 - 65536"
      by simp
    then have "take_bit 16 (v + 32768) = v + 32768 - 65536"
      by (simp add: take_bit_eq_mod)
    with False show ?thesis by simp
  qed
  finally show ?thesis by (simp add: int16_le_def Let_def v_def)
qed

lemma unpack_hhh_len: "length bs \<noteq> 6 \<Longrightarrow> unpack_hhh bs = Inl StructError"
  by (induction bs rule: unpack_hhh.induct) simp_all

lemma unpack_hhh_six:
  "length bs = 6 \<Longrightarrow>
   unpack_hhh bs = Inr (int16_le (bs ! 0) (bs ! 1), int16_le (bs ! 2) (bs ! 3),
                        int16_le (bs ! 4) (bs ! 5))"
  by (induction bs rule: unpack_hhh.induct) simp_all

text \<open>
  C1. On a wrapper whose characteristic is resolved, \<open>read()\<close> issues exactly one
  characteristic read; a payload that is not exactly 6 bytes long fails with
  \<open>struct.error\<close> (the specification's MalformedPayloadError); a payload of 6 bytes
  decodes to three signed 16-bit integers x, y, z, each from two bytes with the low byte
  first; and the payload \<open>01 00 FE FF 00 80\<close> decodes to \<open>(1, -2, -32768)\<close>.
\<close>

theorem accelerator_read_decodes:
  assumes "accel_data self = Some c" and "tr_read env lg c = Inr bs"
  shows "snd (AcceleratorService_read env self lg) = lg @ [CharRead c]
    \<and> (length bs \<noteq> 6 \<longrightarrow> fst (AcceleratorService_read env self lg) = Inl StructError)
    \<and> (length bs = 6 \<longrightarrow> fst (AcceleratorService_read env self lg) =
          Inr (sint (word_cat (bs ! 1) (bs ! 0) :: 16 word),
               sint (word_cat (bs ! 3) (bs ! 2) :: 16 word),
               sint (word_cat (bs ! 5) (bs ! 4) :: 16 word)))
    \<and> (bs = [0x01, 0x00, 0xFE, 0xFF, 0x00, 0x80] \<longrightarrow>
          fst (AcceleratorService_read env self lg) = Inr (1, - 2, - 32768))"
proof -
  have r: "AcceleratorService_read env self lg = (unpack_hhh bs, lg @ [CharRead c])"
    using assms by (simp add: AcceleratorService_read_def data_read_def char_read_def)
  have "unpack_hhh [0x01, 0x00, 0xFE, 0xFF, 0x00, 0x80] = Inr (1, - 2, - 32768)"
    by (simp add: int16_le_def)
  then show ?thesis
    by (simp add: r unpack_hhh_len unpack_hhh_six flip: int16_le_sint)
qed

theorem accelerator_read_decodes_witness:
  "AcceleratorService_read (mock_device [0x01, 0x00, 0xFE, 0xFF, 0x00, 0x80])
     \<lparr>accel_periph = 0, accel_service = Some 1, accel_data = Some 2\<rparr> []
     = (Inr (1, - 2, - 32768), [CharRead 2])
   \<and> AcceleratorService_read (mock_device [0x01, 0x00, 0xFE, 0xFF, 0x00])
     \<lparr>accel_periph = 0, accel_service = Some 1, accel_data = Some 2\<rparr> []
     = (Inl StructError, [CharRead 2])
   \<and> AcceleratorService_read (mock_device [0x01, 0x00, 0xFE, 0xFF, 0x00, 0x80, 0x00])
     \<lparr>accel_periph = 0, accel_service = Some 1, accel_data = Some 2\<rparr> []
     = (Inl StructError, [CharRead 2])"
proof -
  let ?s = "\<lparr>accel_periph = 0, accel_service = Some 1, accel_data = Some 2\<rparr>"
  have d: "accel_data ?s = Some 2" by simp
  have r: "tr_read (mock_device bs) [] 2 = Inr bs" for bs
    by (simp add: mock_device_def)
  note six = accelerator_read_decodes [OF d r [of "[0x01, 0x00, 0xFE, 0xFF, 0x00, 0x80]"]]
  note five = accelerator_read_decodes [OF d r [of "[0x01, 0x00, 0xFE, 0xFF, 0x00]"]]
  note seven = accelerator_read_decodes [OF d r [of "[0x01, 0x00, 0xFE, 0xFF, 0x00, 0x80, 0x00]"]]
  have "fst (AcceleratorService_read (mock_device [0x01, 0x00, 0xFE, 0xFF, 0x00, 0x80]) ?s [])
          = Inr (1, - 2, - 32768)"
    by (rule six [THEN conjunct2, THEN conjunct2, THEN conjunct2, rule_format]) (rule refl)
  moreover
  have "snd (AcceleratorService_read (mock_device [0x01, 0x00, 0xFE, 0xFF, 0x00, 0x80]) ?s [])
          = [] @ [CharRead 2]"
    by (rule six [THEN conjunct1])
  moreover
  have "fst (AcceleratorService_read (mock_device [0x01, 0x00, 0xFE, 0xFF, 0x00]) ?s [])
          = Inl StructError"
    by (rule five [THEN conjunct2, THEN conjunct1, rule_format]) simp
  moreover
  have "snd (AcceleratorService_read (mock_device [0x01, 0x00, 0xFE, 0xFF, 0x00]) ?s [])
          = [] @ [CharRead 2]"
    by (rule five [THEN conjunct1])
  moreover
  have "fst (AcceleratorService_read (mock_device [0x01, 0x00, 0xFE, 0xFF, 0x00, 0x80, 0x00]) ?s [])
          = Inl StructError"
    by (rule seven [THEN conjunct2, THEN conjunct1, rule_format]) simp
  moreover
  have "snd (AcceleratorService_read (mock_device [0x01, 0x00, 0xFE, 0xFF, 0x00, 0x80, 0x00]) ?s [])
          = [] @ [CharRead 2]"
    by (rule seven [THEN conjunct1])
  ultimately show ?thesis
    by (simp only: prod_eq_iff fst_conv snd_conv append_Nil simp_thms)
qed

subsection \<open>Resolution is idempotent\<close>

lemma resolve_service_Some: "resolve_service env p u (Some s) lg = (Inr (Some s), lg)"
  by (simp add: resolve_service_def)

lemma resolve_characteristic_Some:
  "resolve_characteristic env svc u (Some c) lg = (Inr (Some c), lg)"
  by (simp add: resolve_characteristic_def)

lemma resolve_service_Inr:
  "resolve_service env p u cur lg = (Inr r, lg') \<Longrightarrow> \<exists>s. r = Some s"
  by (auto simp: resolve_service_def split: if_splits prod.splits sum.splits)

lemma resolve_characteristic_Inr:
  "resolve_characteristic env svc u cur lg = (Inr r, lg') \<Longrightarrow> \<exists>c. r = Some c"
  by (auto simp: resolve_characteristic_def split: if_splits prod.splits sum.splits)

lemma temp_enable_resolved:
  "TemperatureService_enable env self lg = (Inr (), self', lg') \<Longrightarrow>
   \<exists>s c. temp_service self' = Some s \<and> temp_data self' = Some c"
  by (auto simp: TemperatureService_enable_def
        split: prod.splits sum.splits dest!: resolve_service_Inr resolve_characteristic_Inr)

lemma temp_enable_noop:
  "temp_service self = Some s \<Longrightarrow> temp_data self = Some c \<Longrightarrow>
   TemperatureService_enable env self lg = (Inr (), self, lg)"
  by (simp add: TemperatureService_enable_def resolve_service_Some resolve_characteristic_Some)

lemma accel_enable_resolved:
  "AcceleratorService_enable env self lg = (Inr (), self', lg') \<Longrightarrow>
   \<exists>s c. accel_service self' = Some s \<and> accel_data self' = Some c"
  by (auto simp: AcceleratorService_enable_def
        split: prod.splits sum.splits dest!: resolve_service_Inr resolve_characteristic_Inr)

lemma accel_enable_noop:
  "accel_service self = Some s \<Longrightarrow> accel_data self = Some c \<Longrightarrow>
   AcceleratorService_enable env self lg = (Inr (), self, lg)"
  by (simp add: AcceleratorService_enable_def resolve_service_Some resolve_characteristic_Some)

lemma btn_enable_resolved:
  "ButtonsService_enable env self lg = (Inr (), self', lg') \<Longrightarrow>
   \<exists>s a b. btn_service self' = Some s \<and> btn_dataA self' = Some a \<and> btn_dataB self' = Some b"
  by (auto simp: ButtonsService_enable_def
        split: prod.splits sum.splits dest!: resolve_service_Inr resolve_characteristic_Inr)

lemma btn_enable_noop:
  "btn_service self = Some s \<Longrightarrow> btn_dataA self = Some a \<Longrightarrow> btn_dataB self = Some b \<Longrightarrow>
   ButtonsService_enable env self lg = (Inr (), self, lg)"
  by (simp add: ButtonsService_enable_def resolve_service_Some resolve_characteristic_Some)

text \<open>
  C3. For each of the three wrappers: once a call of \<open>enable()\<close> has succeeded, a further
  call succeeds, leaves the wrapper (its service and characteristic references) exactly
  as it was and issues no call to the device: the call log is unchanged, whatever the
  device and whatever has been logged in between.
\<close>

theorem enable_idempotent:
  "(TemperatureService_enable env ts lg = (Inr (), ts', lg') \<longrightarrow>
      TemperatureService_enable env2 ts' lg2 = (Inr (), ts', lg2))
   \<and> (AcceleratorService_enable env acs lg = (Inr (), acs', lg') \<longrightarrow>
      AcceleratorService_enable env2 acs' lg2 = (Inr (), acs', lg2))
   \<and> (ButtonsService_enable env bs lg = (Inr (), bs', lg') \<longrightarrow>
      ButtonsService_enable env2 bs' lg2 = (Inr (), bs', lg2))"
proof (intro conjI impI)
  assume "TemperatureService_enable env ts lg = (Inr (), ts', lg')"
  from temp_enable_resolved [OF this]
  show "TemperatureService_enable env2 ts' lg2 = (Inr (), ts', lg2)"
    by (auto intro: temp_enable_noop)
next
  assume "AcceleratorService_enable env acs lg = (Inr (), acs', lg')"
  from accel_enable_resolved [OF this]
  show "AcceleratorService_enable env2 acs' lg2 = (Inr (), acs', lg2)"
    by (auto intro: accel_enable_noop)
next
  assume "ButtonsService_enable env bs lg = (Inr (), bs', lg')"
  from btn_enable_resolved [OF this]
  show "ButtonsService_enable env2 bs' lg2 = (Inr (), bs', lg2)"
    by (auto intro: btn_enable_noop)
qed

text \<open>
  On the mock device the first \<open>enable()\<close> of a fresh wrapper issues its lookups (two
  for the temperature and the accelerometer, three for the buttons) and the second one
  issues none.
\<close>

lemma mock_temp_enable:
  "TemperatureService_enable (mock_device []) (TemperatureService_init 0) [] =
     (Inr (), \<lparr>temp_periph = 0, temp_service = Some 1, temp_data = Some 2\<rparr>,
      [GetServiceByUUID 0 temp_svcUUID, GetCharacteristics 1 temp_dataUUID])"
  by (simp add: TemperatureService_enable_def TemperatureService_init_def resolve_service_def
      resolve_characteristic_def first_characteristic_def getServiceByUUID_def
      getCharacteristics_def mock_device_def)

lemma mock_accel_enable:
  "AcceleratorService_enable (mock_device []) (AcceleratorService_init 0) [] =
     (Inr (), \<lparr>accel_periph = 0, accel_service = Some 1, accel_data = Some 2\<rparr>,
      [GetServiceByUUID 0 accel_svcUUID, GetCharacteristics 1 accel_dataUUID])"
  by (simp add: AcceleratorService_enable_def AcceleratorService_init_def resolve_service_def
      resolve_characteristic_def first_characteristic_def getServiceByUUID_def
      getCharacteristics_def mock_device_def)

lemma mock_btn_enable:
  "ButtonsService_enable (mock_device []) (ButtonsService_init 0) [] =
     (Inr (), \<lparr>btn_periph = 0, btn_service = Some 1, btn_dataA = Some 2, btn_dataB = Some 2\<rparr>,
      [GetServiceByUUID 0 btn_svcUUID, GetCharacteristics 1 dataUUID_btnA,
       GetCharacteristics 1 dataUUID_btnB])"
  by (simp add: ButtonsService_enable_def ButtonsService_init_def resolve_service_def
      resolve_characteristic_def first_characteristic_def getServiceByUUID_def
      getCharacteristics_def mock_device_def)

theorem enable_idempotent_witness:
  "TemperatureService_enable (mock_device [])
      \<lparr>temp_periph = 0, temp_service = Some 1, temp_data = Some 2\<rparr>
      [GetServiceByUUID 0 temp_svcUUID, GetCharacteristics 1 temp_dataUUID] =
     (Inr (), \<lparr>temp_periph = 0, temp_service = Some 1, temp_data = Some 2\<rparr>,
      [GetServiceByUUID 0 temp_svcUUID, GetCharacteristics 1 temp_dataUUID])
   \<and> AcceleratorService_enable (mock_device [])
      \<lparr>accel_periph = 0, accel_service = Some 1, accel_data = Some 2\<rparr>
      [GetServiceByUUID 0 accel_svcUUID, GetCharacteristics 1 accel_dataUUID] =
     (Inr (), \<lparr>accel_periph = 0, accel_service = Some 1, accel_data = Some 2\<rparr>,
      [GetServiceByUUID 0 accel_svcUUID, GetCharacteristics 1 accel_dataUUID])
   \<and> ButtonsService_enable (mock_device [])
      \<lparr>btn_periph = 0, btn_service = Some 1, btn_dataA = Some 2, btn_dataB = Some 2\<rparr>
      [GetServiceByUUID 0 btn_svcUUID, GetCharacteristics 1 dataUUID_btnA,
       GetCharacteristics 1 dataUUID_btnB] =
     (Inr (), \<lparr>btn_periph = 0, btn_service = Some 1, btn_dataA = Some 2, btn_dataB = Some 2\<rparr>,
      [GetServiceByUUID 0 btn_svcUUID, GetCharacteristics 1 dataUUID_btnA,
       GetCharacteristics 1 dataUUID_btnB])"
  by (intro conjI
      enable_idempotent [THEN conjunct1, rule_format, OF mock_temp_enable]
      enable_idempotent [THEN conjunct2, THEN conjunct1, rule_format, OF mock_accel_enable]
      enable_idempotent [THEN conjunct2, THEN conjunct2, rule_format, OF mock_btn_enable])

subsection \<open>Argument validation\<close>

text \<open>
  C6. Whatever the other arguments and the device: when \<open>--pair\<close> comes with a sensor
  flag, and when neither \<open>--pair\<close> nor a sensor flag is given, \<open>main\<close> ends in \<open>sys.exit\<close>
  with a message that names the conflict, so the exit status is 1, not 0, and no call to
  the transport library has been issued: the call log is empty, no connection was
  attempted.
\<close>

theorem main_rejects_bad_flags:
  "(arg_pair a \<and> (arg_temperature a \<or> arg_accelerator a \<or> arg_buttons a) \<longrightarrow>
      fst (main env a) = Inl (SystemExit (ExitMessage
        ''error: --pair can not be combined with other services (e.g --buttons)''))
      \<and> exit_status (fst (main env a)) = 1
      \<and> calls (snd (main env a)) = [])
   \<and> (\<not> arg_pair a \<and> \<not> (arg_temperature a \<or> arg_accelerator a \<or> arg_buttons a) \<longrightarrow>
      fst (main env a) = Inl (SystemExit (ExitMessage
        ''no action requested (e.g --pair or --temperature/--accelerator/--buttons), aborting.''))
      \<and> exit_status (fst (main env a)) = 1
      \<and> calls (snd (main env a)) = [])"
  by (simp add: main_def services_requested_def world_init_def)

theorem main_rejects_bad_flags_witness:
  "(fst (main (mock_device [])
          ((default_args ''AA:BB:CC:DD:EE:FF'')\<lparr>arg_pair := True, arg_buttons := True\<rparr>))
     = Inl (SystemExit (ExitMessage
        ''error: --pair can not be combined with other services (e.g --buttons)''))
    \<and> exit_status (fst (main (mock_device [])
          ((default_args ''AA:BB:CC:DD:EE:FF'')\<lparr>arg_pair := True, arg_buttons := True\<rparr>))) = 1
    \<and> calls (snd (main (mock_device [])
          ((default_args ''AA:BB:CC:DD:EE:FF'')\<lparr>arg_pair := True, arg_buttons := True\<rparr>))) = [])
   \<and> (fst (main (mock_device []) (default_args ''AA:BB:CC:DD:EE:FF''))
     = Inl (SystemExit (ExitMessage
        ''no action requested (e.g --pair or --temperature/--accelerator/--buttons), aborting.''))
    \<and> exit_status (fst (main (mock_device []) (default_args ''AA:BB:CC:DD:EE:FF''))) = 1
    \<and> calls (snd (main (mock_device []) (default_args ''AA:BB:CC:DD:EE:FF''))) = [])"
  by (intro conjI main_rejects_bad_flags [THEN conjunct1, rule_format, THEN conjunct1]
      main_rejects_bad_flags [THEN conjunct1, rule_format, THEN conjunct2, THEN conjunct1]
      main_rejects_bad_flags [THEN conjunct1, rule_format, THEN conjunct2, THEN conjunct2]
      main_rejects_bad_flags [THEN conjunct2, rule_format, THEN conjunct1]
      main_rejects_bad_flags [THEN conjunct2, rule_format, THEN conjunct2, THEN conjunct1]
      main_rejects_bad_flags [THEN conjunct2, rule_format, THEN conjunct2, THEN conjunct2])
    (simp_all add: default_args_def)

subsection \<open>The pairing flow\<close>

lemma pair_after_unpair_calls:
  "\<exists>rest. calls (snd (pair_after_unpair env a p w)) = calls w @ Disconnect p # rest"
  by (simp add: pair_after_unpair_def disconnect_def Peripheral_init_def pair_def print_line_def
      split: sum.splits)

lemma pair_after_unpair_ok:
  assumes "tr_disconnect env (calls w) p = Inr ()"
    and "tr_connect env (calls w @ [Disconnect p]) (arg_mac_address a) (Some (arg_interface a))
           = Inr p'"
    and "tr_pair env (calls w @ [Disconnect p, Connect (arg_mac_address a) (Some (arg_interface a))]) p'
           = Inr ()"
  shows "pair_after_unpair env a p w =
     (Inl (SystemExit (ExitStatus 0)),
      w\<lparr>calls := calls w @ [Disconnect p, Connect (arg_mac_address a) (Some (arg_interface a)),
                             Pair p'],
        stdout := stdout w @ [''Paired.'']\<rparr>)"
  using assms
  by (simp add: pair_after_unpair_def disconnect_def Peripheral_init_def pair_def print_line_def)

lemma main_pair:
  "arg_pair a \<Longrightarrow> \<not> services_requested a \<Longrightarrow>
   main env a = pair_flow env a (world_init\<lparr>Debugging := arg_debug a\<rparr>)"
  by (simp add: main_def world_init_def)

lemma pair_flow_unpair_raises:
  assumes "tr_connect env (calls w) (arg_mac_address a) (Some (arg_interface a)) = Inr p"
    and "tr_unpair env (calls w @ [Connect (arg_mac_address a) (Some (arg_interface a))]) p = Inl e"
  shows "pair_flow env a w =
     (if e = BTLEException DISCONNECTED (Some 6)
      then pair_after_unpair env a p
             (w\<lparr>calls := calls w @ [Connect (arg_mac_address a) (Some (arg_interface a)), Unpair p],
                stdout := stdout w @ [''unpair failed: not-paired (which is OK)'']\<rparr>)
      else (Inl e,
            w\<lparr>calls := calls w @ [Connect (arg_mac_address a) (Some (arg_interface a)), Unpair p]\<rparr>))"
  using assms
  by (cases e) (simp_all add: pair_flow_def Peripheral_init_def unpair_def print_line_def)

lemma pair_flow_unpair_returns:
  assumes "tr_connect env (calls w) (arg_mac_address a) (Some (arg_interface a)) = Inr p"
    and "tr_unpair env (calls w @ [Connect (arg_mac_address a) (Some (arg_interface a))]) p = Inr ()"
  shows "pair_flow env a w =
     pair_after_unpair env a p
       (w\<lparr>calls := calls w @ [Connect (arg_mac_address a) (Some (arg_interface a)), Unpair p]\<rparr>)"
  using assms
  by (simp add: pair_flow_def Peripheral_init_def unpair_def)

lemma pair_after_unpair_stdout:
  "\<exists>rest. stdout (snd (pair_after_unpair env a p w)) = stdout w @ rest"
  by (simp add: pair_after_unpair_def disconnect_def Peripheral_init_def pair_def print_line_def
      split: sum.splits)

text \<open>
  C8. With \<open>--pair\<close> and an established first connection \<open>p\<close> (\<open>C\<close> is the connect call):
  \<^item> when \<open>p.unpair()\<close> raises \<open>e\<close>, the flow goes on to \<open>p.disconnect()\<close> if and only if
    \<open>e\<close> is a \<open>BTLEException\<close> with code \<open>DISCONNECTED\<close> and \<open>estat\<close> 6; any other \<open>e\<close>
    escapes from \<open>main\<close> right after the unpair call, and the tolerated one is reported
    on standard output;
  \<^item> when \<open>p.unpair()\<close> returns, the next call is \<open>p.disconnect()\<close> as well;
  \<^item> on both continuing paths, when the disconnect, the second connect and the pairing
    succeed, the calls are exactly connect, unpair, disconnect, connect, pair (on the new
    connection), the last line printed is \<open>Paired.\<close> and the exit status is 0.
\<close>

theorem pair_flow_unpair_tolerance:
  assumes "arg_pair a" and "\<not> services_requested a"
    and C: "C = Connect (arg_mac_address a) (Some (arg_interface a))"
    and conn: "tr_connect env [] (arg_mac_address a) (Some (arg_interface a)) = Inr p"
  shows "(\<forall>e. tr_unpair env [C] p = Inl e \<longrightarrow>
            (Disconnect p \<in> set (calls (snd (main env a)))
               \<longleftrightarrow> e = BTLEException DISCONNECTED (Some 6))
          \<and> (e \<noteq> BTLEException DISCONNECTED (Some 6) \<longrightarrow>
               fst (main env a) = Inl e \<and> calls (snd (main env a)) = [C, Unpair p]
               \<and> stdout (snd (main env a)) = [])
          \<and> (e = BTLEException DISCONNECTED (Some 6) \<longrightarrow>
               take 3 (calls (snd (main env a))) = [C, Unpair p, Disconnect p]
               \<and> take 1 (stdout (snd (main env a)))
                   = [''unpair failed: not-paired (which is OK)'']))
     \<and> (tr_unpair env [C] p = Inr () \<longrightarrow>
           take 3 (calls (snd (main env a))) = [C, Unpair p, Disconnect p])
     \<and> ((tr_unpair env [C] p = Inr ()
            \<or> tr_unpair env [C] p = Inl (BTLEException DISCONNECTED (Some 6)))
         \<and> tr_disconnect env [C, Unpair p] p = Inr ()
         \<and> tr_connect env [C, Unpair p, Disconnect p] (arg_mac_address a)
              (Some (arg_interface a)) = Inr p'
         \<and> tr_pair env [C, Unpair p, Disconnect p, C] p' = Inr () \<longrightarrow>
           fst (main env a) = Inl (SystemExit (ExitStatus 0))
           \<and> exit_status (fst (main env a)) = 0
           \<and> calls (snd (main env a)) = [C, Unpair p, Disconnect p, C, Pair p']
           \<and> last (stdout (snd (main env a))) = ''Paired.'')"
proof -
  let ?w0 = "world_init\<lparr>Debugging := arg_debug a\<rparr>"
  have m: "main env a = pair_flow env a ?w0"
    using assms(1,2) by (rule main_pair)
  have c0: "calls ?w0 = []" and s0: "stdout ?w0 = []"
    by (simp_all add: world_init_def)
  have conn': "tr_connect env (calls ?w0) (arg_mac_address a) (Some (arg_interface a)) = Inr p"
    using conn c0 by simp
  have raises: "(Disconnect p \<in> set (calls (snd (main env a)))
               \<longleftrightarrow> e = BTLEException DISCONNECTED (Some 6))
          \<and> (e \<noteq> BTLEException DISCONNECTED (Some 6) \<longrightarrow>
               fst (main env a) = Inl e \<and> calls (snd (main env a)) = [C, Unpair p]
               \<and> stdout (snd (main env a)) = [])
          \<and> (e = BTLEException DISCONNECTED (Some 6) \<longrightarrow>
               take 3 (calls (snd (main env a))) = [C, Unpair p, Disconnect p]
               \<and> take 1 (stdout (snd (main env a)))
                   = [''unpair failed: not-paired (which is OK)''])"
    if u: "tr_unpair env [C] p = Inl e" for e
  proof -
    have u': "tr_unpair env (calls ?w0 @ [Connect (arg_mac_address a) (Some (arg_interface a))]) p
                = Inl e"
      using u C c0 by simp
    note pf = pair_flow_unpair_raises [OF conn' u']
    show ?thesis
    proof (cases "e = BTLEException DISCONNECTED (Some 6)")
      case True
      define w2 where "w2 = ?w0\<lparr>calls := calls ?w0
            @ [Connect (arg_mac_address a) (Some (arg_interface a)), Unpair p],
          stdout := stdout ?w0 @ [''unpair failed: not-paired (which is OK)'']\<rparr>"
      have w2: "calls w2 = [C, Unpair p]"
        "stdout w2 = [''unpair failed: not-paired (which is OK)'']"
        by (simp_all add: w2_def C world_init_def)
      have me: "main env a = pair_after_unpair env a p w2"
        using pf True m by (simp add: w2_def)
      obtain rest where r: "calls (snd (pair_after_unpair env a p w2))
          = calls w2 @ Disconnect p # rest"
        using pair_after_unpair_calls [of env a p w2] by blast
      obtain out where o: "stdout (snd (pair_after_unpair env a p w2)) = stdout w2 @ out"
        using pair_after_unpair_stdout [of env a p w2] by blast
      show ?thesis
        using True by (simp add: me r o w2)
    next
      case False
      then show ?thesis
        using pf m by (simp add: C world_init_def)
    qed
  qed
  have returns: "take 3 (calls (snd (main env a))) = [C, Unpair p, Disconnect p]"
    if u: "tr_unpair env [C] p = Inr ()"
  proof -
    have u': "tr_unpair env (calls ?w0 @ [Connect (arg_mac_address a) (Some (arg_interface a))]) p
                = Inr ()"
      using u C c0 by simp
    define w2 where "w2 = ?w0\<lparr>calls := calls ?w0
          @ [Connect (arg_mac_address a) (Some (arg_interface a)), Unpair p]\<rparr>"
    have w2: "calls w2 = [C, Unpair p]"
      by (simp add: w2_def C world_init_def)
    have me: "main env a = pair_after_unpair env a p w2"
      using pair_flow_unpair_returns [OF conn' u'] m by (simp add: w2_def)
    obtain rest where r: "calls (snd (pair_after_unpair env a p w2))
        = calls w2 @ Disconnect p # rest"
      using pair_after_unpair_calls [of env a p w2] by blast
    show ?thesis
      by (simp add: me r w2)
  qed
  have paired: "fst (main env a) = Inl (SystemExit (ExitStatus 0))
           \<and> exit_status (fst (main env a)) = 0
           \<and> calls (snd (main env a)) = [C, Unpair p, Disconnect p, C, Pair p']
           \<and> last (stdout (snd (main env a))) = ''Paired.''"
    if u: "tr_unpair env [C] p = Inr ()
            \<or> tr_unpair env [C] p = Inl (BTLEException DISCONNECTED (Some 6))"
      and d: "tr_disconnect env [C, Unpair p] p = Inr ()"
      and c2: "tr_connect env [C, Unpair p, Disconnect p] (arg_mac_address a)
              (Some (arg_interface a)) = Inr p'"
      and pr: "tr_pair env [C, Unpair p, Disconnect p, C] p' = Inr ()"
  proof -
    have ok: "pair_after_unpair env a p w =
       (Inl (SystemExit (ExitStatus 0)),
        w\<lparr>calls := calls w @ [Disconnect p, Connect (arg_mac_address a) (Some (arg_interface a)),
                               Pair p'],
          stdout := stdout w @ [''Paired.'']\<rparr>)"
      if "calls w = [C, Unpair p]" for w
      using that d c2 pr by (intro pair_after_unpair_ok) (simp_all add: C)
    from u show ?thesis
    proof
      assume u1: "tr_unpair env [C] p = Inr ()"
      have u': "tr_unpair env (calls ?w0 @ [Connect (arg_mac_address a) (Some (arg_interface a))]) p
                = Inr ()"
        using u1 C c0 by simp
      show ?thesis
        using pair_flow_unpair_returns [OF conn' u'] m
        by (simp add: ok C world_init_def)
    next
      assume u2: "tr_unpair env [C] p = Inl (BTLEException DISCONNECTED (Some 6))"
      have u': "tr_unpair env (calls ?w0 @ [Connect (arg_mac_address a) (Some (arg_interface a))]) p
                = Inl (BTLEException DISCONNECTED (Some 6))"
        using u2 C c0 by simp
      show ?thesis
        using pair_flow_unpair_raises [OF conn' u'] m
        by (simp add: ok C world_init_def)
    qed
  qed
  from raises returns paired show ?thesis
    by blast
qed

theorem pair_flow_unpair_tolerance_witness:
  "fst (main (unpair_raises (BTLEException DISCONNECTED (Some 6)))
          ((default_args ''AA:BB:CC:DD:EE:FF'')\<lparr>arg_pair := True\<rparr>))
     = Inl (SystemExit (ExitStatus 0))
   \<and> calls (snd (main (unpair_raises (BTLEException DISCONNECTED (Some 6)))
          ((default_args ''AA:BB:CC:DD:EE:FF'')\<lparr>arg_pair := True\<rparr>)))
     = [Connect ''AA:BB:CC:DD:EE:FF'' (Some 0), Unpair 0, Disconnect 0,
        Connect ''AA:BB:CC:DD:EE:FF'' (Some 0), Pair 0]
   \<and> fst (main (unpair_raises (BTLEException COMM_ERROR None))
          ((default_args ''AA:BB:CC:DD:EE:FF'')\<lparr>arg_pair := True\<rparr>))
     = Inl (BTLEException COMM_ERROR None)
   \<and> calls (snd (main (unpair_raises (BTLEException COMM_ERROR None))
          ((default_args ''AA:BB:CC:DD:EE:FF'')\<lparr>arg_pair := True\<rparr>)))
     = [Connect ''AA:BB:CC:DD:EE:FF'' (Some 0), Unpair 0]"
proof -
  let ?a = "(default_args ''AA:BB:CC:DD:EE:FF'')\<lparr>arg_pair := True\<rparr>"
  let ?C = "Connect ''AA:BB:CC:DD:EE:FF'' (Some 0)"
  have a: "arg_pair ?a" "\<not> services_requested ?a"
    "?C = Connect (arg_mac_address ?a) (Some (arg_interface ?a))"
    by (simp_all add: default_args_def services_requested_def)
  have conn: "tr_connect (unpair_raises e) h (arg_mac_address ?a) (Some (arg_interface ?a)) = Inr 0"
    for e h
    by (simp add: unpair_raises_def mock_device_def)
  have un: "tr_unpair (unpair_raises e) [?C] 0 = Inl e" for e
    by (simp add: unpair_raises_def mock_device_def)
  have rest: "tr_disconnect (unpair_raises e) h 0 = Inr ()" "tr_pair (unpair_raises e) h 0 = Inr ()"
    for e h
    by (simp_all add: unpair_raises_def mock_device_def)
  note tolerated = pair_flow_unpair_tolerance [OF a conn, where p' = 0,
      of "BTLEException DISCONNECTED (Some 6)", THEN conjunct2, THEN conjunct2, rule_format,
      OF conjI [OF disjI2 [OF un] conjI [OF rest(1) conjI [OF conn rest(2)]]]]
  note fatal = pair_flow_unpair_tolerance [OF a conn, where p' = 0,
      of "BTLEException COMM_ERROR None", THEN conjunct1, rule_format, OF un,
      THEN conjunct2, THEN conjunct1, rule_format]
  have "BTLEException COMM_ERROR None \<noteq> BTLEException DISCONNECTED (Some 6)"
    by simp
  note fatal' = fatal [OF this]
  show ?thesis
    by (intro conjI tolerated [THEN conjunct1]
        tolerated [THEN conjunct2, THEN conjunct2, THEN conjunct1]
        fatal' [THEN conjunct1] fatal' [THEN conjunct2, THEN conjunct1])
qed

subsection \<open>The wrappers and the loop issue sensor calls only\<close>

lemma control_calls_append [simp]:
  "control_calls (xs @ ys) = control_calls xs @ control_calls ys"
  by (simp add: control_calls_def)

lemma control_calls_simps [simp]:
  "control_calls [] = []"
  "control_calls (c # cs) = (if sensor_call c then control_calls cs else c # control_calls cs)"
  by (simp_all add: control_calls_def)

lemma resolve_service_control:
  "resolve_service env p u cur lg = (r, lg') \<Longrightarrow> control_calls lg' = control_calls lg"
  by (auto simp: resolve_service_def getServiceByUUID_def split: if_splits sum.splits)

lemma first_characteristic_control:
  "first_characteristic env svc u lg = (r, lg') \<Longrightarrow> control_calls lg' = control_calls lg"
  by (auto simp: first_characteristic_def getCharacteristics_def
      split: option.splits sum.splits list.splits)

lemma resolve_characteristic_control:
  "resolve_characteristic env svc u cur lg = (r, lg') \<Longrightarrow> control_calls lg' = control_calls lg"
  by (auto simp: resolve_characteristic_def split: if_splits sum.splits prod.splits
      dest: first_characteristic_control)

lemma data_read_control:
  "data_read env d lg = (r, lg') \<Longrightarrow> control_calls lg' = control_calls lg"
  by (auto simp: data_read_def char_read_def split: option.splits)

lemma temp_enable_control:
  "TemperatureService_enable env self lg = (r, self', lg') \<Longrightarrow>
   control_calls lg' = control_calls lg"
  by (auto simp: TemperatureService_enable_def split: sum.splits prod.splits
      dest!: resolve_service_control resolve_characteristic_control)

lemma accel_enable_control:
  "AcceleratorService_enable env self lg = (r, self', lg') \<Longrightarrow>
   control_calls lg' = control_calls lg"
  by (auto simp: AcceleratorService_enable_def split: sum.splits prod.splits
      dest!: resolve_service_control resolve_characteristic_control)

lemma btn_enable_control:
  "ButtonsService_enable env self lg = (r, self', lg') \<Longrightarrow>
   control_calls lg' = control_calls lg"
  by (auto simp: ButtonsService_enable_def split: sum.splits prod.splits
      dest!: resolve_service_control resolve_characteristic_control)

lemma temp_read_control:
  "TemperatureService_read env self lg = (r, lg') \<Longrightarrow> control_calls lg' = control_calls lg"
  by (auto simp: TemperatureService_read_def split: sum.splits prod.splits
      dest!: data_read_control)

lemma accel_read_control:
  "AcceleratorService_read env self lg = (r, lg') \<Longrightarrow> control_calls lg' = control_calls lg"
  by (auto simp: AcceleratorService_read_def split: sum.splits prod.splits
      dest!: data_read_control)

lemma read_btnA_control:
  "read_btnA env self lg = (r, lg') \<Longrightarrow> control_calls lg' = control_calls lg"
  by (auto simp: read_btnA_def split: sum.splits prod.splits dest!: data_read_control)

lemma read_btnB_control:
  "read_btnB env self lg = (r, lg') \<Longrightarrow> control_calls lg' = control_calls lg"
  by (auto simp: read_btnB_def split: sum.splits prod.splits dest!: data_read_control)

lemma btn_read_control:
  "ButtonsService_read env self lg = (r, lg') \<Longrightarrow> control_calls lg' = control_calls lg"
  by (auto simp: ButtonsService_read_def split: sum.splits prod.splits
      dest!: read_btnA_control read_btnB_control)

lemma enable_selected_control:
  "enable_selected env a m lg = (r, m', lg') \<Longrightarrow> control_calls lg' = control_calls lg"
  by (auto simp: enable_selected_def split: sum.splits prod.splits if_splits
      dest!: temp_enable_control accel_enable_control btn_enable_control)

lemma enable_selected_periph:
  "enable_selected env a m lg = (r, m', lg') \<Longrightarrow> mb_periph m' = mb_periph m"
  by (auto simp: enable_selected_def split: sum.splits prod.splits if_splits)

lemma poll_temperature_control:
  "poll_temperature env a m w = (r, w') \<Longrightarrow> control_calls (calls w') = control_calls (calls w)"
  by (auto simp: poll_temperature_def print_line_def split: sum.splits prod.splits if_splits
      dest!: temp_read_control)

lemma poll_accelerator_control:
  "poll_accelerator env a m w = (r, w') \<Longrightarrow> control_calls (calls w') = control_calls (calls w)"
  by (auto simp: poll_accelerator_def print_line_def split: sum.splits prod.splits if_splits
      dest!: accel_read_control)

lemma poll_buttons_control:
  "poll_buttons env a m w = (r, w') \<Longrightarrow> control_calls (calls w') = control_calls (calls w)"
  by (auto simp: poll_buttons_def print_line_def split: sum.splits prod.splits if_splits
      dest!: btn_read_control)

lemma poll_round_control:
  "poll_round env a m w = (r, w') \<Longrightarrow> control_calls (calls w') = control_calls (calls w)"
  by (auto simp: poll_round_def split: sum.splits prod.splits
      dest!: poll_temperature_control poll_accelerator_control poll_buttons_control)

lemma poll_loop_control:
  "poll_loop env a m counter w = (r, w') \<Longrightarrow> control_calls (calls w') = control_calls (calls w)"
proof (induction env a m counter w arbitrary: r w' rule: poll_loop.induct)
  case (1 env a m counter w)
  obtain r1 w1 where round: "poll_round env a m w = (r1, w1)"
    by (cases "poll_round env a m w")
  note c1 = poll_round_control [OF round]
  show ?case
  proof (cases r1)
    case (Inl e)
    with round "1.prems" c1 show ?thesis
      by (simp add: poll_loop.simps [of env a m counter w])
  next
    case (Inr u)
    show ?thesis
    proof (cases "counter \<ge> arg_count a")
      case True
      with Inr round "1.prems" c1 show ?thesis
        by (simp add: poll_loop.simps [of env a m counter w])
    next
      case False
      obtain r2 w2 where wait: "waitForNotifications env (mb_periph m) (arg_t a) w1 = (r2, w2)"
        by (cases "waitForNotifications env (mb_periph m) (arg_t a) w1")
      then have c2: "control_calls (calls w2) = control_calls (calls w1)"
        by (auto simp: waitForNotifications_def)
      show ?thesis
      proof (cases r2)
        case (Inl e)
        with Inr False round wait "1.prems" c1 c2 show ?thesis
          by (simp add: poll_loop.simps [of env a m counter w])
      next
        case (Inr b)
        from \<open>r1 = Inr u\<close> Inr False round wait "1.prems"
        have "poll_loop env a m (counter + 1) w2 = (r, w')"
          by (simp add: poll_loop.simps [of env a m counter w])
        from "1.IH" [OF round [symmetric] _ False wait [symmetric] _ this] \<open>r1 = Inr u\<close> Inr
        have "control_calls (calls w') = control_calls (calls w2)"
          by simp
        with c1 c2 show ?thesis by simp
      qed
    qed
  qed
qed

lemma poll_try_control:
  "poll_try env a m w = (r, w') \<Longrightarrow> control_calls (calls w') = control_calls (calls w)"
  by (auto simp: poll_try_def print_line_def Let_def split: sum.splits prod.splits
      dest!: enable_selected_control poll_loop_control)

subsection \<open>The polling flow around the loop\<close>

lemma main_poll:
  "\<not> arg_pair a \<Longrightarrow> services_requested a \<Longrightarrow>
   main env a = poll_flow env a (world_init\<lparr>Debugging := arg_debug a\<rparr>)"
  by (simp add: main_def world_init_def)

lemma count_list_control_calls:
  "\<not> sensor_call c \<Longrightarrow> count_list (control_calls lg) c = count_list lg c"
  by (induction lg) auto

lemma poll_flow_connect_raises:
  "tr_connect env (calls w) (arg_mac_address a) None = Inl e \<Longrightarrow>
   poll_flow env a w =
     (Inl e, w\<lparr>calls := calls w @ [Connect (arg_mac_address a) None],
               stdout := stdout w @ [''Connecting to '' @ arg_mac_address a]\<rparr>)"
  by (simp add: poll_flow_def Microbit_init_def Peripheral_init_def print_line_def)

lemma poll_flow_unsupported:
  assumes "tr_connect env (calls w) (arg_mac_address a) None = Inr p"
    and "arg_security a = Passkey \<or> arg_security a = High"
  shows "poll_flow env a w =
     (Inl (SystemExit (ExitMessage
        ''error: microbit with Passkey security mode is not currently supported in this program'')),
      w\<lparr>calls := calls w @ [Connect (arg_mac_address a) None],
        stdout := stdout w @ [''Connecting to '' @ arg_mac_address a, ''Setting security'']\<rparr>)"
  using assms
  by (auto simp: poll_flow_def Microbit_init_def Peripheral_init_def print_line_def
      set_security_def)

lemma poll_flow_security_raises:
  assumes "tr_connect env (calls w) (arg_mac_address a) None = Inr p"
    and "(arg_security a \<in> {Low, NoPairing} \<and> level = ''low'')
         \<or> (arg_security a \<in> {JustWorks, Medium} \<and> level = ''medium'')"
    and "tr_setSecurityLevel env (calls w @ [Connect (arg_mac_address a) None]) p level = Inl e"
  shows "poll_flow env a w =
     (Inl e,
      w\<lparr>calls := calls w @ [Connect (arg_mac_address a) None, SetSecurityLevel p level],
        stdout := stdout w @ [''Connecting to '' @ arg_mac_address a, ''Setting security'']\<rparr>)"
  using assms
  by (auto simp: poll_flow_def Microbit_init_def Peripheral_init_def print_line_def
      set_security_def setSecurityLevel_def)

lemma poll_flow_secured:
  assumes "tr_connect env (calls w) (arg_mac_address a) None = Inr p"
    and "(arg_security a \<in> {Low, NoPairing} \<and> level = ''low'')
         \<or> (arg_security a \<in> {JustWorks, Medium} \<and> level = ''medium'')"
    and "tr_setSecurityLevel env (calls w @ [Connect (arg_mac_address a) None]) p level = Inr ()"
  shows "poll_flow env a w =
     (case poll_try env a
             \<lparr>mb_periph = p, temperature = TemperatureService_init p,
              accelerator = AcceleratorService_init p, buttons = ButtonsService_init p\<rparr>
             (w\<lparr>stdout := stdout w
                  @ [''Connecting to '' @ arg_mac_address a, ''Setting security''],
                calls := calls w
                  @ [Connect (arg_mac_address a) None, SetSecurityLevel p level]\<rparr>) of
        (r, w3) \<Rightarrow>
          (case disconnect env p w3 of
             (Inl e, w4) \<Rightarrow> (Inl e, w4)
           | (Inr u, w4) \<Rightarrow> (r, w4)))"
  using assms
  by (auto simp: poll_flow_def Microbit_init_def Peripheral_init_def print_line_def
      set_security_def setSecurityLevel_def)

lemma finally_disconnect_calls:
  "calls (snd (case disconnect env p w3 of
             (Inl e, w4) \<Rightarrow> (Inl e, w4)
           | (Inr u, w4) \<Rightarrow> (r, w4))) = calls w3 @ [Disconnect p]"
  by (simp add: disconnect_def split: sum.splits)

lemma main_secured_calls:
  assumes "\<not> arg_pair a" and "services_requested a"
    and C: "C = Connect (arg_mac_address a) None"
    and conn: "tr_connect env [] (arg_mac_address a) None = Inr p"
    and lvl: "(arg_security a \<in> {Low, NoPairing} \<and> level = ''low'')
         \<or> (arg_security a \<in> {JustWorks, Medium} \<and> level = ''medium'')"
    and sec: "tr_setSecurityLevel env [C] p level = Inr ()"
  shows "control_calls (calls (snd (main env a))) = [C, SetSecurityLevel p level, Disconnect p]
    \<and> last (calls (snd (main env a))) = Disconnect p"
proof -
  let ?w0 = "world_init\<lparr>Debugging := arg_debug a\<rparr>"
  define m where "m = \<lparr>mb_periph = p, temperature = TemperatureService_init p,
              accelerator = AcceleratorService_init p, buttons = ButtonsService_init p\<rparr>"
  define w2 where "w2 = ?w0\<lparr>stdout := stdout ?w0
                  @ [''Connecting to '' @ arg_mac_address a, ''Setting security''],
                calls := calls ?w0
                  @ [Connect (arg_mac_address a) None, SetSecurityLevel p level]\<rparr>"
  have c0: "calls ?w0 = []"
    by (simp add: world_init_def)
  have w2: "calls w2 = [C, SetSecurityLevel p level]"
    by (simp add: w2_def C c0)
  have conn': "tr_connect env (calls ?w0) (arg_mac_address a) None = Inr p"
    using conn c0 by simp
  have sec': "tr_setSecurityLevel env (calls ?w0 @ [Connect (arg_mac_address a) None]) p level
      = Inr ()"
    using sec C c0 by simp
  obtain r w3 where body: "poll_try env a m w2 = (r, w3)"
    by (cases "poll_try env a m w2")
  have "main env a = poll_flow env a ?w0"
    using assms(1,2) by (rule main_poll)
  also have "\<dots> = (case poll_try env a m w2 of
        (r, w3) \<Rightarrow>
          (case disconnect env p w3 of
             (Inl e, w4) \<Rightarrow> (Inl e, w4)
           | (Inr u, w4) \<Rightarrow> (r, w4)))"
    unfolding m_def w2_def by (rule poll_flow_secured [OF conn' lvl sec'])
  finally have "calls (snd (main env a)) = calls w3 @ [Disconnect p]"
    by (simp add: body finally_disconnect_calls)
  moreover have "control_calls (calls w3) = [C, SetSecurityLevel p level]"
    using poll_try_control [OF body] by (simp add: w2 C)
  ultimately show ?thesis
    by simp
qed

subsection \<open>Guaranteed disconnect\<close>

text \<open>
  C4, as amended. In the polling flow, once the connection \<open>p\<close> is established and the
  security level has been applied (the \<open>try\<close> block is entered), \<open>disconnect\<close> is called
  on \<open>p\<close> exactly once and it is the last call of the run, whatever the device does
  afterwards: whether the loop completes or an exception escapes from \<open>enable()\<close>, from a
  sensor read or from the wait. Together with the connect and the security call it is the
  only call that is not a lookup, a read or a wait, so no other disconnect happens. The
  loop is a total function, so the run does reach that call.
\<close>

theorem poll_flow_disconnects_once:
  assumes "\<not> arg_pair a" and "services_requested a"
    and "C = Connect (arg_mac_address a) None"
    and "tr_connect env [] (arg_mac_address a) None = Inr p"
    and "(arg_security a \<in> {Low, NoPairing} \<and> level = ''low'')
         \<or> (arg_security a \<in> {JustWorks, Medium} \<and> level = ''medium'')"
    and "tr_setSecurityLevel env [C] p level = Inr ()"
  shows "count_list (calls (snd (main env a))) (Disconnect p) = 1
    \<and> last (calls (snd (main env a))) = Disconnect p
    \<and> control_calls (calls (snd (main env a))) = [C, SetSecurityLevel p level, Disconnect p]"
proof -
  note cc = main_secured_calls [OF assms]
  have "count_list (calls (snd (main env a))) (Disconnect p)
      = count_list (control_calls (calls (snd (main env a)))) (Disconnect p)"
    by (simp add: count_list_control_calls)
  also have "\<dots> = 1"
    using assms(3) by (simp add: cc)
  finally show ?thesis
    using cc by simp
qed

text \<open>
  The claim as stated fails for the steps between the connect and the \<open>try\<close>: when
  \<open>setSecurityLevel\<close> raises, and when the passkey tier is rejected, the run ends with the
  connection established and no disconnect.
\<close>

theorem poll_flow_disconnects_once_counterexample:
  "fst (main (security_raises (BTLEException COMM_ERROR None))
          ((default_args ''AA:BB:CC:DD:EE:FF'')\<lparr>arg_temperature := True\<rparr>))
     = Inl (BTLEException COMM_ERROR None)
   \<and> calls (snd (main (security_raises (BTLEException COMM_ERROR None))
          ((default_args ''AA:BB:CC:DD:EE:FF'')\<lparr>arg_temperature := True\<rparr>)))
     = [Connect ''AA:BB:CC:DD:EE:FF'' None, SetSecurityLevel 0 ''low'']
   \<and> count_list (calls (snd (main (security_raises (BTLEException COMM_ERROR None))
          ((default_args ''AA:BB:CC:DD:EE:FF'')\<lparr>arg_temperature := True\<rparr>)))) (Disconnect 0) = 0
   \<and> calls (snd (main (mock_device [20])
          ((default_args ''AA:BB:CC:DD:EE:FF'')\<lparr>arg_temperature := True, arg_security := Passkey\<rparr>)))
     = [Connect ''AA:BB:CC:DD:EE:FF'' None]
   \<and> count_list (calls (snd (main (mock_device [20])
          ((default_args ''AA:BB:CC:DD:EE:FF'')\<lparr>arg_temperature := True, arg_security := Passkey\<rparr>))))
        (Disconnect 0) = 0"
proof -
  let ?a = "(default_args ''AA:BB:CC:DD:EE:FF'')\<lparr>arg_temperature := True\<rparr>"
  let ?b = "(default_args ''AA:BB:CC:DD:EE:FF'')\<lparr>arg_temperature := True, arg_security := Passkey\<rparr>"
  let ?w0 = "world_init\<lparr>Debugging := False\<rparr>"
  have ma: "main env ?a = poll_flow env ?a ?w0" for env
    using main_poll [of ?a env] by (simp add: default_args_def services_requested_def)
  have mb: "main env ?b = poll_flow env ?b ?w0" for env
    using main_poll [of ?b env] by (simp add: default_args_def services_requested_def)
  have a: "main (security_raises (BTLEException COMM_ERROR None)) ?a =
      (Inl (BTLEException COMM_ERROR None),
       ?w0\<lparr>calls := calls ?w0 @ [Connect (arg_mac_address ?a) None, SetSecurityLevel 0 ''low''],
           stdout := stdout ?w0 @ [''Connecting to '' @ arg_mac_address ?a, ''Setting security'']\<rparr>)"
    unfolding ma
    by (rule poll_flow_security_raises)
      (simp_all add: security_raises_def mock_device_def default_args_def)
  have b: "main (mock_device [20]) ?b =
      (Inl (SystemExit (ExitMessage
        ''error: microbit with Passkey security mode is not currently supported in this program'')),
       ?w0\<lparr>calls := calls ?w0 @ [Connect (arg_mac_address ?b) None],
           stdout := stdout ?w0 @ [''Connecting to '' @ arg_mac_address ?b, ''Setting security'']\<rparr>)"
    unfolding mb
    by (rule poll_flow_unsupported [where p = 0])
      (simp_all add: mock_device_def default_args_def)
  show ?thesis
    unfolding a b by (simp add: world_init_def default_args_def)
qed

theorem poll_flow_disconnects_once_witness:
  "count_list (calls (snd (main (mock_device [])
          ((default_args ''AA:BB:CC:DD:EE:FF'')\<lparr>arg_accelerator := True, arg_count := 3\<rparr>))))
        (Disconnect 0) = 1
   \<and> last (calls (snd (main (mock_device [])
          ((default_args ''AA:BB:CC:DD:EE:FF'')\<lparr>arg_accelerator := True, arg_count := 3\<rparr>))))
     = Disconnect 0
   \<and> control_calls (calls (snd (main (mock_device [])
          ((default_args ''AA:BB:CC:DD:EE:FF'')\<lparr>arg_accelerator := True, arg_count := 3\<rparr>))))
     = [Connect ''AA:BB:CC:DD:EE:FF'' None, SetSecurityLevel 0 ''low'', Disconnect 0]"
  by (rule poll_flow_disconnects_once [where level = "''low''"])
    (simp_all add: default_args_def services_requested_def mock_device_def)

subsection \<open>The security tiers\<close>

text \<open>
  C7. In the polling flow with \<open>--security passkey\<close> or \<open>--security high\<close> the only call
  ever issued is the connect: no security level is applied and no wrapper is enabled, on
  any device; and when the connection is established the run ends in \<open>sys.exit\<close> with the
  message that the passkey mode is not supported, exit status 1. With \<open>low\<close> or
  \<open>no-pairing\<close> the one security call of the run is \<open>setSecurityLevel("low")\<close>, right
  after the connect; with \<open>just-works\<close> or \<open>medium\<close> it is \<open>setSecurityLevel("medium")\<close>.
  (After it, the only further control call is the disconnect, made when the security
  call returned.)
\<close>

theorem unsupported_security_rejected:
  assumes "\<not> arg_pair a" and "services_requested a"
    and C: "C = Connect (arg_mac_address a) None"
  shows "(arg_security a = Passkey \<or> arg_security a = High \<longrightarrow>
            calls (snd (main env a)) = [C]
            \<and> (\<forall>p. tr_connect env [] (arg_mac_address a) None = Inr p \<longrightarrow>
                 fst (main env a) = Inl (SystemExit (ExitMessage
                   ''error: microbit with Passkey security mode is not currently supported in this program''))
                 \<and> exit_status (fst (main env a)) = 1))
    \<and> (\<forall>p. tr_connect env [] (arg_mac_address a) None = Inr p \<longrightarrow>
          (arg_security a = Low \<or> arg_security a = NoPairing \<longrightarrow>
             control_calls (calls (snd (main env a)))
               = C # SetSecurityLevel p ''low''
                   # (if tr_setSecurityLevel env [C] p ''low'' = Inr () then [Disconnect p] else []))
          \<and> (arg_security a = JustWorks \<or> arg_security a = Medium \<longrightarrow>
             control_calls (calls (snd (main env a)))
               = C # SetSecurityLevel p ''medium''
                   # (if tr_setSecurityLevel env [C] p ''medium'' = Inr () then [Disconnect p] else [])))"
proof -
  let ?w0 = "world_init\<lparr>Debugging := arg_debug a\<rparr>"
  have m: "main env a = poll_flow env a ?w0"
    using assms(1,2) by (rule main_poll)
  have c0: "calls ?w0 = []"
    by (simp add: world_init_def)
  have rejected: "calls (snd (main env a)) = [C]
            \<and> (\<forall>p. tr_connect env [] (arg_mac_address a) None = Inr p \<longrightarrow>
                 fst (main env a) = Inl (SystemExit (ExitMessage
                   ''error: microbit with Passkey security mode is not currently supported in this program''))
                 \<and> exit_status (fst (main env a)) = 1)"
    if unsupported: "arg_security a = Passkey \<or> arg_security a = High"
  proof (cases "tr_connect env [] (arg_mac_address a) None")
    case (Inl e)
    then have "tr_connect env (calls ?w0) (arg_mac_address a) None = Inl e"
      by (simp add: c0)
    from poll_flow_connect_raises [OF this] Inl show ?thesis
      by (simp add: m C c0)
  next
    case (Inr p)
    then have "tr_connect env (calls ?w0) (arg_mac_address a) None = Inr p"
      by (simp add: c0)
    from poll_flow_unsupported [OF this unsupported] Inr show ?thesis
      by (simp add: m C c0)
  qed
  have tier: "control_calls (calls (snd (main env a)))
               = C # SetSecurityLevel p level
                   # (if tr_setSecurityLevel env [C] p level = Inr () then [Disconnect p] else [])"
    if conn: "tr_connect env [] (arg_mac_address a) None = Inr p"
      and lvl: "(arg_security a \<in> {Low, NoPairing} \<and> level = ''low'')
         \<or> (arg_security a \<in> {JustWorks, Medium} \<and> level = ''medium'')"
    for p level
  proof (cases "tr_setSecurityLevel env [C] p level")
    case (Inl e)
    have conn': "tr_connect env (calls ?w0) (arg_mac_address a) None = Inr p"
      using conn by (simp add: c0)
    have "tr_setSecurityLevel env (calls ?w0 @ [Connect (arg_mac_address a) None]) p level = Inl e"
      using Inl by (simp add: c0 C)
    from poll_flow_security_raises [OF conn' lvl this] Inl show ?thesis
      by (simp add: m C c0)
  next
    case (Inr u)
    then have "tr_setSecurityLevel env [C] p level = Inr ()"
      by simp
    from main_secured_calls [OF assms conn lvl this] this show ?thesis
      by simp
  qed
  have low: "control_calls (calls (snd (main env a)))
               = C # SetSecurityLevel p ''low''
                   # (if tr_setSecurityLevel env [C] p ''low'' = Inr () then [Disconnect p] else [])"
    if "tr_connect env [] (arg_mac_address a) None = Inr p"
      and "arg_security a = Low \<or> arg_security a = NoPairing" for p
    using that by (intro tier) auto
  have medium: "control_calls (calls (snd (main env a)))
               = C # SetSecurityLevel p ''medium''
                   # (if tr_setSecurityLevel env [C] p ''medium'' = Inr () then [Disconnect p] else [])"
    if "tr_connect env [] (arg_mac_address a) None = Inr p"
      and "arg_security a = JustWorks \<or> arg_security a = Medium" for p
    using that by (intro tier) auto
  from rejected low medium show ?thesis
    by blast
qed

theorem unsupported_security_rejected_witness:
  "calls (snd (main (mock_device [20])
      ((default_args ''AA:BB:CC:DD:EE:FF'')\<lparr>arg_temperature := True, arg_security := Passkey\<rparr>)))
     = [Connect ''AA:BB:CC:DD:EE:FF'' None]
   \<and> fst (main (mock_device [20])
      ((default_args ''AA:BB:CC:DD:EE:FF'')\<lparr>arg_temperature := True, arg_security := High\<rparr>))
     = Inl (SystemExit (ExitMessage
         ''error: microbit with Passkey security mode is not currently supported in this program''))
   \<and> control_calls (calls (snd (main (mock_device [20])
      ((default_args ''AA:BB:CC:DD:EE:FF'')\<lparr>arg_temperature := True, arg_security := JustWorks\<rparr>))))
     = [Connect ''AA:BB:CC:DD:EE:FF'' None, SetSecurityLevel 0 ''medium'', Disconnect 0]
   \<and> control_calls (calls (snd (main (mock_device [20])
      ((default_args ''AA:BB:CC:DD:EE:FF'')\<lparr>arg_temperature := True, arg_security := Low\<rparr>))))
     = [Connect ''AA:BB:CC:DD:EE:FF'' None, SetSecurityLevel 0 ''low'', Disconnect 0]"
proof -
  let ?C = "Connect ''AA:BB:CC:DD:EE:FF'' None"
  have a: "\<not> arg_pair ((default_args ''AA:BB:CC:DD:EE:FF'')\<lparr>arg_temperature := True, arg_security := s\<rparr>)"
    "services_requested ((default_args ''AA:BB:CC:DD:EE:FF'')\<lparr>arg_temperature := True, arg_security := s\<rparr>)"
    "?C = Connect (arg_mac_address
        ((default_args ''AA:BB:CC:DD:EE:FF'')\<lparr>arg_temperature := True, arg_security := s\<rparr>)) None"
    for s
    by (simp_all add: default_args_def services_requested_def)
  have s: "arg_security ((default_args ''AA:BB:CC:DD:EE:FF'')\<lparr>arg_temperature := True, arg_security := s\<rparr>) = s"
    for s
    by simp
  have conn: "tr_connect (mock_device [20]) [] (arg_mac_address
        ((default_args ''AA:BB:CC:DD:EE:FF'')\<lparr>arg_temperature := True, arg_security := s\<rparr>)) None = Inr 0"
    for s
    by (simp add: mock_device_def)
  have sec: "tr_setSecurityLevel (mock_device [20]) [?C] 0 l = Inr ()" for l
    by (simp add: mock_device_def)
  note t = unsupported_security_rejected [OF a, of _ "mock_device [20]"]
  have 1: "calls (snd (main (mock_device [20])
      ((default_args ''AA:BB:CC:DD:EE:FF'')\<lparr>arg_temperature := True, arg_security := Passkey\<rparr>)))
     = [?C]"
    by (rule t [of Passkey, THEN conjunct1, rule_format, THEN conjunct1]) (simp only: s simp_thms)
  have 2: "fst (main (mock_device [20])
      ((default_args ''AA:BB:CC:DD:EE:FF'')\<lparr>arg_temperature := True, arg_security := High\<rparr>))
     = Inl (SystemExit (ExitMessage
         ''error: microbit with Passkey security mode is not currently supported in this program''))"
    by (rule t [of High, THEN conjunct1, rule_format, THEN conjunct2, rule_format, THEN conjunct1,
          OF _ conn])
      (simp only: s simp_thms)
  have "control_calls (calls (snd (main (mock_device [20])
      ((default_args ''AA:BB:CC:DD:EE:FF'')\<lparr>arg_temperature := True, arg_security := JustWorks\<rparr>))))
     = ?C # SetSecurityLevel 0 ''medium''
         # (if tr_setSecurityLevel (mock_device [20]) [?C] 0 ''medium'' = Inr ()
            then [Disconnect 0] else [])"
    by (rule t [of JustWorks, THEN conjunct2, rule_format, OF conn, THEN conjunct2, rule_format])
      (simp only: s simp_thms)
  then have 3: "control_calls (calls (snd (main (mock_device [20])
      ((default_args ''AA:BB:CC:DD:EE:FF'')\<lparr>arg_temperature := True, arg_security := JustWorks\<rparr>))))
     = [?C, SetSecurityLevel 0 ''medium'', Disconnect 0]"
    by (simp only: sec simp_thms if_True)
  have "control_calls (calls (snd (main (mock_device [20])
      ((default_args ''AA:BB:CC:DD:EE:FF'')\<lparr>arg_temperature := True, arg_security := Low\<rparr>))))
     = ?C # SetSecurityLevel 0 ''low''
         # (if tr_setSecurityLevel (mock_device [20]) [?C] 0 ''low'' = Inr ()
            then [Disconnect 0] else [])"
    by (rule t [of Low, THEN conjunct2, rule_format, OF conn, THEN conjunct1, rule_format])
      (simp only: s simp_thms)
  then have 4: "control_calls (calls (snd (main (mock_device [20])
      ((default_args ''AA:BB:CC:DD:EE:FF'')\<lparr>arg_temperature := True, arg_security := Low\<rparr>))))
     = [?C, SetSecurityLevel 0 ''low'', Disconnect 0]"
    by (simp only: sec simp_thms if_True)
  from 1 2 3 4 show ?thesis
    by (intro conjI)
qed

subsection \<open>End to end: two temperature readings\<close>

lemma temp_enable_fresh:
  assumes "tr_getServiceByUUID env lg p temp_svcUUID = Inr s"
    and "tr_getCharacteristics env (lg @ [GetServiceByUUID p temp_svcUUID]) s temp_dataUUID
           = Inr (c # cs)"
  shows "TemperatureService_enable env (TemperatureService_init p) lg =
     (Inr (), \<lparr>temp_periph = p, temp_service = Some s, temp_data = Some c\<rparr>,
      lg @ [GetServiceByUUID p temp_svcUUID, GetCharacteristics s temp_dataUUID])"
  using assms
  by (simp add: TemperatureService_enable_def TemperatureService_init_def resolve_service_def
      resolve_characteristic_def first_characteristic_def getServiceByUUID_def
      getCharacteristics_def)

lemma str_d_20: "str_d 20 = ''20''"
  by (simp add: str_d_def dec_digit_def)

lemma poll_round_temperature_only:
  assumes "arg_temperature a" and "\<not> arg_accelerator a" and "\<not> arg_buttons a"
    and "temp_data (temperature m) = Some c"
    and "tr_read env (calls w) c = Inr [b]"
  shows "poll_round env a m w =
     (Inr (), w\<lparr>calls := calls w @ [CharRead c],
               stdout := stdout w @ [''Temperature: '' @ str_d (uint b) @ ''C'']\<rparr>)"
  using assms
  by (simp add: poll_round_def poll_temperature_def poll_accelerator_def poll_buttons_def
      TemperatureService_read_def data_read_def char_read_def print_line_def)

lemma poll_loop_two_temperature:
  assumes flags: "arg_temperature a" "\<not> arg_accelerator a" "\<not> arg_buttons a"
    and n: "arg_count a = 2"
    and d: "temp_data (temperature m) = Some c"
    and rd: "\<And>h. tr_read env h c = Inr [20]"
    and wait: "\<And>h. tr_waitForNotifications env h (mb_periph m) (arg_t a) = Inr b"
  shows "poll_loop env a m 1 w =
     (Inr (), w\<lparr>calls := calls w @ [CharRead c, WaitForNotifications (mb_periph m) (arg_t a),
                                     CharRead c],
               stdout := stdout w @ [''Temperature: 20C'', ''Temperature: 20C'']\<rparr>)"
proof -
  have round: "poll_round env a m v =
     (Inr (), v\<lparr>calls := calls v @ [CharRead c],
               stdout := stdout v @ [''Temperature: 20C'']\<rparr>)" for v
    using poll_round_temperature_only [OF flags d rd [of "calls v"]]
    by (simp add: str_d_20)
  have second: "poll_loop env a m 2 v =
     (Inr (), v\<lparr>calls := calls v @ [CharRead c],
               stdout := stdout v @ [''Temperature: 20C'']\<rparr>)" for v
    by (subst poll_loop.simps) (simp add: round n)
  show ?thesis
    by (subst poll_loop.simps) (simp add: round n waitForNotifications_def wait second)
qed

text \<open>
  C9. With \<open>-n 2 -t 0 --temperature\<close> and the defaults for everything else, on a device
  where the connect, the security call, the two lookups and the wait succeed and every
  read of the temperature characteristic returns the byte 20: standard output carries
  the three progress lines of the driver and then exactly two lines \<open>Temperature: 20C\<close>
  (so two lines of that text in all), the calls are connect, security level, the two
  lookups, read, wait, read, disconnect, and the disconnect is called exactly once, after
  the loop. Whether the disconnect itself succeeds does not matter for any of this; when
  it does, \<open>main\<close> returns normally.
\<close>

theorem end_to_end_two_temperature_lines:
  assumes a: "a = (default_args mac)\<lparr>arg_count := 2, arg_t := 0, arg_temperature := True\<rparr>"
    and conn: "tr_connect env [] mac None = Inr p"
    and sec: "\<And>h. tr_setSecurityLevel env h p ''low'' = Inr ()"
    and svc: "\<And>h. tr_getServiceByUUID env h p temp_svcUUID = Inr s"
    and chr: "\<And>h. tr_getCharacteristics env h s temp_dataUUID = Inr (c # cs)"
    and rd: "\<And>h. tr_read env h c = Inr [20]"
    and wait: "\<And>h. tr_waitForNotifications env h p 0 = Inr b"
  shows "stdout (snd (main env a)) =
       [''Connecting to '' @ mac, ''Setting security'', ''Enabling selected sensors...'',
        ''Temperature: 20C'', ''Temperature: 20C'']
    \<and> length (filter (\<lambda>line. line = ''Temperature: 20C'') (stdout (snd (main env a)))) = 2
    \<and> calls (snd (main env a)) =
       [Connect mac None, SetSecurityLevel p ''low'', GetServiceByUUID p temp_svcUUID,
        GetCharacteristics s temp_dataUUID, CharRead c, WaitForNotifications p 0, CharRead c,
        Disconnect p]
    \<and> count_list (calls (snd (main env a))) (Disconnect p) = 1
    \<and> (tr_disconnect env
          [Connect mac None, SetSecurityLevel p ''low'', GetServiceByUUID p temp_svcUUID,
           GetCharacteristics s temp_dataUUID, CharRead c, WaitForNotifications p 0, CharRead c] p
          = Inr () \<longrightarrow> fst (main env a) = Inr ())"
proof -
  let ?w0 = "world_init\<lparr>Debugging := arg_debug a\<rparr>"
  define m where "m = \<lparr>mb_periph = p, temperature = TemperatureService_init p,
              accelerator = AcceleratorService_init p, buttons = ButtonsService_init p\<rparr>"
  define m' where "m' = m\<lparr>temperature :=
      \<lparr>temp_periph = p, temp_service = Some s, temp_data = Some c\<rparr>\<rparr>"
  define w2 where "w2 = ?w0\<lparr>stdout := stdout ?w0
                  @ [''Connecting to '' @ arg_mac_address a, ''Setting security''],
                calls := calls ?w0
                  @ [Connect (arg_mac_address a) None, SetSecurityLevel p ''low'']\<rparr>"
  have flags: "\<not> arg_pair a" "services_requested a" "arg_temperature a" "\<not> arg_accelerator a"
    "\<not> arg_buttons a" "arg_count a = 2" "arg_t a = 0" "arg_mac_address a = mac"
    "arg_security a = NoPairing"
    by (simp_all add: a default_args_def services_requested_def)
  have w2: "calls w2 = [Connect mac None, SetSecurityLevel p ''low'']"
    "stdout w2 = [''Connecting to '' @ mac, ''Setting security'']"
    by (simp_all add: w2_def world_init_def flags)
  have "main env a = poll_flow env a ?w0"
    using flags(1,2) by (rule main_poll)
  also have "\<dots> = (case poll_try env a m w2 of
        (r, w3) \<Rightarrow>
          (case disconnect env p w3 of
             (Inl e, w4) \<Rightarrow> (Inl e, w4)
           | (Inr u, w4) \<Rightarrow> (r, w4)))"
    unfolding m_def w2_def
    by (rule poll_flow_secured) (simp_all add: flags world_init_def conn sec)
  finally have main: "main env a = (case poll_try env a m w2 of
        (r, w3) \<Rightarrow>
          (case disconnect env p w3 of
             (Inl e, w4) \<Rightarrow> (Inl e, w4)
           | (Inr u, w4) \<Rightarrow> (r, w4)))" .
  have en: "enable_selected env a m lg =
      (Inr (), m', lg @ [GetServiceByUUID p temp_svcUUID, GetCharacteristics s temp_dataUUID])"
    for lg
    using temp_enable_fresh [of env lg p s c cs, OF svc chr]
    by (simp add: enable_selected_def flags m_def m'_def)
  have loop: "poll_loop env a m' 1 v =
     (Inr (), v\<lparr>calls := calls v @ [CharRead c, WaitForNotifications p 0, CharRead c],
               stdout := stdout v @ [''Temperature: 20C'', ''Temperature: 20C'']\<rparr>)" for v
    using poll_loop_two_temperature [of a m' c env b v] flags rd wait
    by (simp add: m'_def m_def)
  have body: "poll_try env a m w2 =
     (Inr (), w2\<lparr>calls := calls w2 @ [GetServiceByUUID p temp_svcUUID,
         GetCharacteristics s temp_dataUUID, CharRead c, WaitForNotifications p 0, CharRead c],
       stdout := stdout w2 @ [''Enabling selected sensors...'', ''Temperature: 20C'',
         ''Temperature: 20C'']\<rparr>)"
    by (simp add: poll_try_def print_line_def en loop)
  show ?thesis
    unfolding main body
    by (simp add: disconnect_def w2 split: sum.splits)
qed

theorem end_to_end_two_temperature_lines_witness:
  "stdout (snd (main (mock_device [20])
      ((default_args ''AA:BB:CC:DD:EE:FF'')\<lparr>arg_count := 2, arg_t := 0, arg_temperature := True\<rparr>)))
     = [''Connecting to AA:BB:CC:DD:EE:FF'', ''Setting security'',
        ''Enabling selected sensors...'', ''Temperature: 20C'', ''Temperature: 20C'']
   \<and> calls (snd (main (mock_device [20])
      ((default_args ''AA:BB:CC:DD:EE:FF'')\<lparr>arg_count := 2, arg_t := 0, arg_temperature := True\<rparr>)))
     = [Connect ''AA:BB:CC:DD:EE:FF'' None, SetSecurityLevel 0 ''low'',
        GetServiceByUUID 0 temp_svcUUID, GetCharacteristics 1 temp_dataUUID, CharRead 2,
        WaitForNotifications 0 0, CharRead 2, Disconnect 0]
   \<and> fst (main (mock_device [20])
      ((default_args ''AA:BB:CC:DD:EE:FF'')\<lparr>arg_count := 2, arg_t := 0, arg_temperature := True\<rparr>))
     = Inr ()"
proof -
  note t = end_to_end_two_temperature_lines [OF refl, of "mock_device [20]"
      "''AA:BB:CC:DD:EE:FF''" 0 1 2 "[]" False]
  have h: "tr_connect (mock_device [20]) [] ''AA:BB:CC:DD:EE:FF'' None = Inr 0"
    "\<And>h. tr_setSecurityLevel (mock_device [20]) h 0 ''low'' = Inr ()"
    "\<And>h. tr_getServiceByUUID (mock_device [20]) h 0 temp_svcUUID = Inr 1"
    "\<And>h. tr_getCharacteristics (mock_device [20]) h 1 temp_dataUUID = Inr [2]"
    "\<And>h. tr_read (mock_device [20]) h 2 = Inr [20]"
    "\<And>h. tr_waitForNotifications (mock_device [20]) h 0 0 = Inr False"
    by (simp_all add: mock_device_def)
  note r = t [OF h]
  have d: "tr_disconnect (mock_device [20]) h 0 = Inr ()" for h
    by (simp add: mock_device_def)
  have "''Connecting to '' @ ''AA:BB:CC:DD:EE:FF'' = ''Connecting to AA:BB:CC:DD:EE:FF''"
    by simp
  with r [THEN conjunct1] r [THEN conjunct2, THEN conjunct2, THEN conjunct1]
    r [THEN conjunct2, THEN conjunct2, THEN conjunct2, THEN conjunct2, rule_format, OF d]
  show ?thesis
    by (simp only:)
qed

subsection \<open>One round of reads\<close>

lemma data_read_Inr:
  "data_read env d lg = (Inr bs, lg') \<Longrightarrow> \<exists>c. d = Some c \<and> lg' = lg @ [CharRead c]"
  by (auto simp: data_read_def char_read_def split: option.splits)

lemma temp_read_Inr:
  "TemperatureService_read env self lg = (Inr v, lg') \<Longrightarrow> \<exists>c. lg' = lg @ [CharRead c]"
  by (auto simp: TemperatureService_read_def split: sum.splits prod.splits dest!: data_read_Inr)

lemma accel_read_Inr:
  "AcceleratorService_read env self lg = (Inr v, lg') \<Longrightarrow> \<exists>c. lg' = lg @ [CharRead c]"
  by (auto simp: AcceleratorService_read_def split: sum.splits prod.splits dest!: data_read_Inr)

lemma read_btnA_Inr:
  "read_btnA env self lg = (Inr v, lg') \<Longrightarrow> \<exists>c. lg' = lg @ [CharRead c]"
  by (auto simp: read_btnA_def split: sum.splits prod.splits dest!: data_read_Inr)

lemma read_btnB_Inr:
  "read_btnB env self lg = (Inr v, lg') \<Longrightarrow> \<exists>c. lg' = lg @ [CharRead c]"
  by (auto simp: read_btnB_def split: sum.splits prod.splits dest!: data_read_Inr)

lemma btn_read_Inr:
  "ButtonsService_read env self lg = (Inr v, lg') \<Longrightarrow>
   \<exists>c c'. lg' = lg @ [CharRead c, CharRead c']"
  by (auto simp: ButtonsService_read_def split: sum.splits prod.splits
      dest!: read_btnA_Inr read_btnB_Inr)

text \<open>
  A successful step of the round: nothing when the sensor is not requested, otherwise
  its reads are appended to the log and one line to the output.
\<close>

lemma poll_temperature_Inr:
  "poll_temperature env a m w = (Inr u, w') \<Longrightarrow>
   (if arg_temperature a
    then \<exists>c line. w' = w\<lparr>calls := calls w @ [CharRead c], stdout := stdout w @ [line]\<rparr>
    else w' = w)"
  by (auto simp: poll_temperature_def print_line_def split: if_splits sum.splits prod.splits
      dest!: temp_read_Inr)

lemma poll_accelerator_Inr:
  "poll_accelerator env a m w = (Inr u, w') \<Longrightarrow>
   (if arg_accelerator a
    then \<exists>c line. w' = w\<lparr>calls := calls w @ [CharRead c], stdout := stdout w @ [line]\<rparr>
    else w' = w)"
  by (auto simp: poll_accelerator_def print_line_def split: if_splits sum.splits prod.splits
      dest!: accel_read_Inr)

lemma poll_buttons_Inr:
  "poll_buttons env a m w = (Inr u, w') \<Longrightarrow>
   (if arg_buttons a
    then \<exists>c c' line. w' = w\<lparr>calls := calls w @ [CharRead c, CharRead c'],
                              stdout := stdout w @ [line]\<rparr>
    else w' = w)"
  by (auto simp: poll_buttons_def print_line_def split: if_splits sum.splits prod.splits
      dest!: btn_read_Inr)

lemma poll_round_Inr:
  assumes "poll_round env a m w = (Inr u, w')"
  shows "\<exists>reads lines. calls w' = calls w @ reads \<and> stdout w' = stdout w @ lines
    \<and> length lines = lines_per_round a
    \<and> (\<forall>r \<in> set reads. \<exists>c. r = CharRead c)
    \<and> (services_requested a \<longrightarrow> reads \<noteq> [])"
proof -
  from assms obtain w1 w2 where
    t: "poll_temperature env a m w = (Inr (), w1)" and
    ac: "poll_accelerator env a m w1 = (Inr (), w2)" and
    b: "poll_buttons env a m w2 = (Inr (), w')"
    by (auto simp: poll_round_def split: sum.splits prod.splits)
  from poll_temperature_Inr [OF t] obtain r1 l1 where
    1: "calls w1 = calls w @ r1" "stdout w1 = stdout w @ l1"
       "length l1 = (if arg_temperature a then 1 else 0)"
       "\<forall>r \<in> set r1. \<exists>c. r = CharRead c" "arg_temperature a \<longrightarrow> r1 \<noteq> []"
    by (cases "arg_temperature a") fastforce+
  from poll_accelerator_Inr [OF ac] obtain r2 l2 where
    2: "calls w2 = calls w1 @ r2" "stdout w2 = stdout w1 @ l2"
       "length l2 = (if arg_accelerator a then 1 else 0)"
       "\<forall>r \<in> set r2. \<exists>c. r = CharRead c" "arg_accelerator a \<longrightarrow> r2 \<noteq> []"
    by (cases "arg_accelerator a") fastforce+
  from poll_buttons_Inr [OF b] obtain r3 l3 where
    3: "calls w' = calls w2 @ r3" "stdout w' = stdout w2 @ l3"
       "length l3 = (if arg_buttons a then 1 else 0)"
       "\<forall>r \<in> set r3. \<exists>c. r = CharRead c" "arg_buttons a \<longrightarrow> r3 \<noteq> []"
    by (cases "arg_buttons a") fastforce+
  have "calls w' = calls w @ (r1 @ r2 @ r3)" "stdout w' = stdout w @ (l1 @ l2 @ l3)"
    by (simp_all add: 1 2 3)
  moreover have "length (l1 @ l2 @ l3) = lines_per_round a"
    by (simp add: 1 2 3 lines_per_round_def)
  moreover have "\<forall>r \<in> set (r1 @ r2 @ r3). \<exists>c. r = CharRead c"
    using 1(4) 2(4) 3(4) by auto
  moreover have "services_requested a \<longrightarrow> r1 @ r2 @ r3 \<noteq> []"
    using 1(5) 2(5) 3(5) by (auto simp: services_requested_def)
  ultimately show ?thesis
    by blast
qed

lemma poll_round_effect:
  assumes "poll_round env a m w = (Inr u, w')"
  shows "length (stdout w') = length (stdout w) + lines_per_round a"
    and "count_list (calls w') (WaitForNotifications p t)
           = count_list (calls w) (WaitForNotifications p t)"
    and "services_requested a \<Longrightarrow> \<exists>c. last (calls w') = CharRead c"
proof -
  from poll_round_Inr [OF assms] obtain reads lines where
    r: "calls w' = calls w @ reads" "stdout w' = stdout w @ lines"
      "length lines = lines_per_round a" "\<forall>r \<in> set reads. \<exists>c. r = CharRead c"
      "services_requested a \<longrightarrow> reads \<noteq> []"
    by blast
  show "length (stdout w') = length (stdout w) + lines_per_round a"
    by (simp add: r)
  have "WaitForNotifications p t \<notin> set reads"
    using r(4) by auto
  then have "count_list reads (WaitForNotifications p t) = 0"
    by (simp add: count_list_0_iff)
  then show "count_list (calls w') (WaitForNotifications p t)
           = count_list (calls w) (WaitForNotifications p t)"
    by (simp add: r)
  show "\<exists>c. last (calls w') = CharRead c" if "services_requested a"
  proof -
    from that r(5) have "reads \<noteq> []" by simp
    then have "last (calls w') = last reads" "last reads \<in> set reads"
      by (simp_all add: r)
    with r(4) show ?thesis by auto
  qed
qed

subsection \<open>The number of rounds and waits\<close>

lemma poll_loop_rounds:
  assumes "\<And>v. fst (poll_round env a m v) = Inr ()"
    and "\<And>h. \<exists>b. tr_waitForNotifications env h (mb_periph m) (arg_t a) = Inr b"
  shows "fst (poll_loop env a m counter w) = Inr ()
    \<and> length (stdout (snd (poll_loop env a m counter w)))
        = length (stdout w) + nat (max 1 (arg_count a - counter + 1)) * lines_per_round a
    \<and> count_list (calls (snd (poll_loop env a m counter w)))
          (WaitForNotifications (mb_periph m) (arg_t a))
        = count_list (calls w) (WaitForNotifications (mb_periph m) (arg_t a))
          + (nat (max 1 (arg_count a - counter + 1)) - 1)
    \<and> (services_requested a \<longrightarrow>
          (\<exists>c. last (calls (snd (poll_loop env a m counter w))) = CharRead c))"
  using assms
proof (induction env a m counter w rule: poll_loop.induct)
  case (1 env a m counter w)
  obtain w1 where round: "poll_round env a m w = (Inr (), w1)"
    using "1.prems"(1) [of w] by (cases "poll_round env a m w") auto
  note eff = poll_round_effect [OF round]
  show ?case
  proof (cases "counter \<ge> arg_count a")
    case True
    then have k: "nat (max 1 (arg_count a - counter + 1)) = 1"
      by simp
    have "poll_loop env a m counter w = (Inr (), w1)"
      using True round by (simp add: poll_loop.simps [of env a m counter w])
    then show ?thesis
      using eff by (simp add: k)
  next
    case False
    then have k: "nat (max 1 (arg_count a - counter + 1))
        = Suc (nat (max 1 (arg_count a - (counter + 1) + 1)))"
      by simp
    obtain b where "tr_waitForNotifications env (calls w1) (mb_periph m) (arg_t a) = Inr b"
      using "1.prems"(2) by blast
    then have wait: "waitForNotifications env (mb_periph m) (arg_t a) w1 =
        (Inr b, w1\<lparr>calls := calls w1 @ [WaitForNotifications (mb_periph m) (arg_t a)]\<rparr>)"
      by (simp add: waitForNotifications_def)
    let ?w2 = "w1\<lparr>calls := calls w1 @ [WaitForNotifications (mb_periph m) (arg_t a)]\<rparr>"
    have step: "poll_loop env a m counter w = poll_loop env a m (counter + 1) ?w2"
      using False round wait by (simp add: poll_loop.simps [of env a m counter w])
    note IH = "1.IH" [OF round [symmetric] refl False wait [symmetric] refl "1.prems"]
    show ?thesis
      unfolding step k using IH eff by simp
  qed
qed

text \<open>
  C10, as amended. When every round of reads succeeds and every wait returns, the loop
  started with \<open>counter = 1\<close> ends normally after exactly \<open>max(1, n)\<close> rounds, \<open>n\<close> being
  \<open>args.count\<close>: it prints \<open>max(1, n)\<close> times one line per requested sensor (so \<open>n \<le> 0\<close>
  still gives one reading of each), it waits exactly \<open>max(1, n) - 1\<close> times, and with at
  least one sensor requested its last call is a characteristic read, not the wait.
\<close>

theorem poll_loop_iteration_count:
  assumes "\<And>v. fst (poll_round env a m v) = Inr ()"
    and "\<And>h. \<exists>b. tr_waitForNotifications env h (mb_periph m) (arg_t a) = Inr b"
  shows "fst (poll_loop env a m 1 w) = Inr ()
    \<and> length (stdout (snd (poll_loop env a m 1 w)))
        = length (stdout w) + nat (max 1 (arg_count a)) * lines_per_round a
    \<and> count_list (calls (snd (poll_loop env a m 1 w)))
          (WaitForNotifications (mb_periph m) (arg_t a))
        = count_list (calls w) (WaitForNotifications (mb_periph m) (arg_t a))
          + (nat (max 1 (arg_count a)) - 1)
    \<and> (services_requested a \<longrightarrow>
          (\<exists>c. last (calls (snd (poll_loop env a m 1 w))) = CharRead c))"
  using poll_loop_rounds [OF assms, of 1 w] by simp

lemma mock_round_temperature:
  assumes "arg_temperature a" and "\<not> arg_accelerator a" and "\<not> arg_buttons a"
    and "tr_read env = (\<lambda>h c. Inr [20])"
  shows "poll_round env a mock_microbit v =
     (Inr (), v\<lparr>calls := calls v @ [CharRead 2],
               stdout := stdout v @ [''Temperature: 20C'']\<rparr>)"
  using poll_round_temperature_only [OF assms(1-3), of mock_microbit 2 env v 20] assms(4)
  by (simp add: mock_microbit_def str_d_20)

theorem poll_loop_iteration_count_witness:
  "fst (poll_loop (mock_device [20])
      ((default_args ''AA:BB:CC:DD:EE:FF'')\<lparr>arg_temperature := True, arg_count := 3\<rparr>)
      mock_microbit 1 world_init) = Inr ()
   \<and> length (stdout (snd (poll_loop (mock_device [20])
      ((default_args ''AA:BB:CC:DD:EE:FF'')\<lparr>arg_temperature := True, arg_count := 3\<rparr>)
      mock_microbit 1 world_init))) = 3
   \<and> count_list (calls (snd (poll_loop (mock_device [20])
      ((default_args ''AA:BB:CC:DD:EE:FF'')\<lparr>arg_temperature := True, arg_count := 3\<rparr>)
      mock_microbit 1 world_init))) (WaitForNotifications 0 1) = 2
   \<and> length (stdout (snd (poll_loop (mock_device [20])
      ((default_args ''AA:BB:CC:DD:EE:FF'')\<lparr>arg_temperature := True, arg_count := - 5\<rparr>)
      mock_microbit 1 world_init))) = 1
   \<and> count_list (calls (snd (poll_loop (mock_device [20])
      ((default_args ''AA:BB:CC:DD:EE:FF'')\<lparr>arg_temperature := True, arg_count := - 5\<rparr>)
      mock_microbit 1 world_init))) (WaitForNotifications 0 1) = 0"
proof -
  have reads: "fst (poll_round (mock_device [20])
      ((default_args ''AA:BB:CC:DD:EE:FF'')\<lparr>arg_temperature := True, arg_count := n\<rparr>)
      mock_microbit v) = Inr ()" for n v
    by (subst mock_round_temperature) (simp_all add: default_args_def mock_device_def)
  have waits: "\<exists>b. tr_waitForNotifications (mock_device [20]) h (mb_periph mock_microbit)
      (arg_t ((default_args ''AA:BB:CC:DD:EE:FF'')\<lparr>arg_temperature := True, arg_count := n\<rparr>))
      = Inr b" for n h
    by (rule exI [of _ False]) (simp add: mock_device_def)
  note t3 = poll_loop_iteration_count [OF reads [of 3] waits [of _ 3], where w = world_init]
  note t5 = poll_loop_iteration_count [OF reads [of "- 5"] waits [of _ "- 5"],
      where w = world_init]
  have e: "mb_periph mock_microbit = 0"
    "arg_t ((default_args ''AA:BB:CC:DD:EE:FF'')\<lparr>arg_temperature := True, arg_count := n\<rparr>) = 1"
    "arg_count ((default_args ''AA:BB:CC:DD:EE:FF'')\<lparr>arg_temperature := True, arg_count := n\<rparr>) = n"
    "lines_per_round ((default_args ''AA:BB:CC:DD:EE:FF'')\<lparr>arg_temperature := True, arg_count := n\<rparr>) = 1"
    "stdout world_init = []" "calls world_init = []" for n
    by (simp_all add: mock_microbit_def default_args_def lines_per_round_def world_init_def)
  show ?thesis
    using t3 [THEN conjunct1] t3 [THEN conjunct2, THEN conjunct1]
      t3 [THEN conjunct2, THEN conjunct2, THEN conjunct1]
      t5 [THEN conjunct2, THEN conjunct1]
      t5 [THEN conjunct2, THEN conjunct2, THEN conjunct1]
    unfolding e by simp
qed

text \<open>The run of \<open>main\<close> with \<open>--temperature\<close> alone, up to the loop, on a co-operating device.\<close>

lemma main_temperature_run:
  assumes a: "a = (default_args mac)\<lparr>arg_count := n, arg_temperature := True\<rparr>"
    and conn: "tr_connect env [] mac None = Inr p"
    and sec: "\<And>h. tr_setSecurityLevel env h p ''low'' = Inr ()"
    and svc: "\<And>h. tr_getServiceByUUID env h p temp_svcUUID = Inr s"
    and chr: "\<And>h. tr_getCharacteristics env h s temp_dataUUID = Inr (c # cs)"
  shows "main env a =
     (case poll_loop env a
             \<lparr>mb_periph = p,
              temperature = \<lparr>temp_periph = p, temp_service = Some s, temp_data = Some c\<rparr>,
              accelerator = AcceleratorService_init p, buttons = ButtonsService_init p\<rparr> 1
             \<lparr>calls = [Connect mac None, SetSecurityLevel p ''low'',
                       GetServiceByUUID p temp_svcUUID, GetCharacteristics s temp_dataUUID],
              stdout = [''Connecting to '' @ mac, ''Setting security'',
                        ''Enabling selected sensors...''],
              Debugging = False\<rparr> of
        (r, w3) \<Rightarrow>
          (case disconnect env p w3 of
             (Inl e, w4) \<Rightarrow> (Inl e, w4)
           | (Inr u, w4) \<Rightarrow> (r, w4)))"
proof -
  let ?w0 = "world_init\<lparr>Debugging := arg_debug a\<rparr>"
  define m where "m = \<lparr>mb_periph = p, temperature = TemperatureService_init p,
              accelerator = AcceleratorService_init p, buttons = ButtonsService_init p\<rparr>"
  define w2 where "w2 = ?w0\<lparr>stdout := stdout ?w0
                  @ [''Connecting to '' @ arg_mac_address a, ''Setting security''],
                calls := calls ?w0
                  @ [Connect (arg_mac_address a) None, SetSecurityLevel p ''low'']\<rparr>"
  have flags: "\<not> arg_pair a" "services_requested a" "arg_temperature a" "\<not> arg_accelerator a"
    "\<not> arg_buttons a" "arg_mac_address a = mac" "arg_security a = NoPairing" "\<not> arg_debug a"
    by (simp_all add: a default_args_def services_requested_def)
  have w2: "w2 = \<lparr>calls = [Connect mac None, SetSecurityLevel p ''low''],
      stdout = [''Connecting to '' @ mac, ''Setting security''], Debugging = False\<rparr>"
    by (simp add: w2_def world_init_def flags)
  have "main env a = poll_flow env a ?w0"
    using flags(1,2) by (rule main_poll)
  also have "\<dots> = (case poll_try env a m w2 of
        (r, w3) \<Rightarrow>
          (case disconnect env p w3 of
             (Inl e, w4) \<Rightarrow> (Inl e, w4)
           | (Inr u, w4) \<Rightarrow> (r, w4)))"
    unfolding m_def w2_def
    by (rule poll_flow_secured) (simp_all add: flags world_init_def conn sec)
  finally have main: "main env a = (case poll_try env a m w2 of
        (r, w3) \<Rightarrow>
          (case disconnect env p w3 of
             (Inl e, w4) \<Rightarrow> (Inl e, w4)
           | (Inr u, w4) \<Rightarrow> (r, w4)))" .
  define m' where "m' = m\<lparr>temperature :=
      \<lparr>temp_periph = p, temp_service = Some s, temp_data = Some c\<rparr>\<rparr>"
  have en: "enable_selected env a m lg =
      (Inr (), m', lg @ [GetServiceByUUID p temp_svcUUID, GetCharacteristics s temp_dataUUID])"
    for lg
    using temp_enable_fresh [of env lg p s c cs, OF svc chr]
    by (simp add: enable_selected_def flags m_def m'_def)
  have body: "poll_try env a m w2 =
      poll_loop env a m' 1
        (w2\<lparr>stdout := stdout w2 @ [''Enabling selected sensors...''],
           calls := calls w2 @ [GetServiceByUUID p temp_svcUUID,
                                GetCharacteristics s temp_dataUUID]\<rparr>)"
    by (simp add: poll_try_def print_line_def en)
  show ?thesis
    unfolding main body
    by (simp add: w2 m'_def m_def)
qed

text \<open>
  The claim as stated assumes only that the reads succeed. With \<open>-n 2 --temperature\<close> on
  a device whose read succeeds and whose wait raises, the body runs once, not twice: one
  temperature line is printed, one read and one wait are issued, and the exception of the
  wait escapes through the disconnect.
\<close>

theorem poll_loop_iteration_count_counterexample:
  "stdout (snd (main (wait_raises [20] (BTLEException DISCONNECTED None))
      ((default_args ''AA:BB:CC:DD:EE:FF'')\<lparr>arg_count := 2, arg_temperature := True\<rparr>)))
     = [''Connecting to AA:BB:CC:DD:EE:FF'', ''Setting security'',
        ''Enabling selected sensors...'', ''Temperature: 20C'']
   \<and> calls (snd (main (wait_raises [20] (BTLEException DISCONNECTED None))
      ((default_args ''AA:BB:CC:DD:EE:FF'')\<lparr>arg_count := 2, arg_temperature := True\<rparr>)))
     = [Connect ''AA:BB:CC:DD:EE:FF'' None, SetSecurityLevel 0 ''low'',
        GetServiceByUUID 0 temp_svcUUID, GetCharacteristics 1 temp_dataUUID, CharRead 2,
        WaitForNotifications 0 1, Disconnect 0]
   \<and> fst (main (wait_raises [20] (BTLEException DISCONNECTED None))
      ((default_args ''AA:BB:CC:DD:EE:FF'')\<lparr>arg_count := 2, arg_temperature := True\<rparr>))
     = Inl (BTLEException DISCONNECTED None)"
proof -
  let ?env = "wait_raises [20] (BTLEException DISCONNECTED None)"
  let ?a = "(default_args ''AA:BB:CC:DD:EE:FF'')\<lparr>arg_count := 2, arg_temperature := True\<rparr>"
  have run: "main ?env ?a =
     (case poll_loop ?env ?a mock_microbit 1
             \<lparr>calls = [Connect ''AA:BB:CC:DD:EE:FF'' None, SetSecurityLevel 0 ''low'',
                       GetServiceByUUID 0 temp_svcUUID, GetCharacteristics 1 temp_dataUUID],
              stdout = [''Connecting to '' @ ''AA:BB:CC:DD:EE:FF'', ''Setting security'',
                        ''Enabling selected sensors...''],
              Debugging = False\<rparr> of
        (r, w3) \<Rightarrow>
          (case disconnect ?env 0 w3 of
             (Inl e, w4) \<Rightarrow> (Inl e, w4)
           | (Inr u, w4) \<Rightarrow> (r, w4)))"
    unfolding mock_microbit_def
    by (rule main_temperature_run [where cs = "[]"])
      (simp_all add: wait_raises_def mock_device_def)
  have round: "poll_round ?env ?a mock_microbit v =
     (Inr (), v\<lparr>calls := calls v @ [CharRead 2],
               stdout := stdout v @ [''Temperature: 20C'']\<rparr>)" for v
    by (rule mock_round_temperature)
      (simp_all add: default_args_def wait_raises_def mock_device_def)
  have wait: "waitForNotifications ?env 0 1 v =
      (Inl (BTLEException DISCONNECTED None), v\<lparr>calls := calls v @ [WaitForNotifications 0 1]\<rparr>)"
    for v
    by (simp add: waitForNotifications_def wait_raises_def mock_device_def)
  have e: "mb_periph mock_microbit = 0" "arg_t ?a = 1" "arg_count ?a = 2"
    by (simp_all add: mock_microbit_def default_args_def)
  have loop: "poll_loop ?env ?a mock_microbit 1 v =
     (Inl (BTLEException DISCONNECTED None),
      v\<lparr>calls := calls v @ [CharRead 2, WaitForNotifications 0 1],
        stdout := stdout v @ [''Temperature: 20C'']\<rparr>)" for v
    by (subst poll_loop.simps) (simp add: round wait e)
  show ?thesis
    unfolding run loop
    by (simp add: disconnect_def wait_raises_def mock_device_def)
qed

subsection \<open>Reading before a successful enable\<close>

lemma temp_enable_Inl_data:
  "TemperatureService_enable env self lg = (Inl e, self', lg') \<Longrightarrow>
   temp_data self' = temp_data self"
  by (auto simp: TemperatureService_enable_def split: sum.splits prod.splits)

lemma accel_enable_Inl_data:
  "AcceleratorService_enable env self lg = (Inl e, self', lg') \<Longrightarrow>
   accel_data self' = accel_data self"
  by (auto simp: AcceleratorService_enable_def split: sum.splits prod.splits)

lemma btn_enable_Inl_dataB:
  "ButtonsService_enable env self lg = (Inl e, self', lg') \<Longrightarrow>
   btn_dataB self' = btn_dataB self"
  by (auto simp: ButtonsService_enable_def split: sum.splits prod.splits)

lemma temp_never_enabled_data: "temp_never_enabled self \<Longrightarrow> temp_data self = None"
  by (induction rule: temp_never_enabled.induct)
    (simp_all add: TemperatureService_init_def temp_enable_Inl_data)

lemma accel_never_enabled_data: "accel_never_enabled self \<Longrightarrow> accel_data self = None"
  by (induction rule: accel_never_enabled.induct)
    (simp_all add: AcceleratorService_init_def accel_enable_Inl_data)

lemma btn_never_enabled_dataB: "btn_never_enabled self \<Longrightarrow> btn_dataB self = None"
  by (induction rule: btn_never_enabled.induct)
    (simp_all add: ButtonsService_init_def btn_enable_Inl_dataB)

lemma read_btnA_fails_or_reads:
  "(\<exists>e lg'. read_btnA env self lg = (Inl e, lg')) \<or> (\<exists>v lg'. read_btnA env self lg = (Inr v, lg'))"
  by (cases "read_btnA env self lg"; cases "fst (read_btnA env self lg)") auto

lemma uuid_btnA_neq_btnB: "dataUUID_btnA \<noteq> dataUUID_btnB"
  by (simp add: dataUUID_btnA_def dataUUID_btnB_def Microbit_UUID_def BTN_A_STATE_def
      BTN_B_STATE_def zero_pad_def hex_digit_def)

text \<open>
  C5, as amended. A read through a characteristic reference that is still unset fails
  with the \<open>AttributeError\<close> of the missing reference (the specification's
  NotEnabledError) and issues no call. For every wrapper state before a successful
  \<open>enable()\<close> this covers \<open>read()\<close> of the temperature and of the accelerometer wrapper
  and \<open>read_btnB()\<close>, and \<open>read()\<close> of the buttons wrapper fails as well (with that error,
  or earlier with the error of its read of button A). \<open>read_btnA()\<close> fails in this way
  as long as the reference to characteristic A is unset, which holds for a new wrapper.
\<close>

theorem read_before_enable_fails:
  "(temp_never_enabled ts \<longrightarrow> TemperatureService_read env ts lg = (Inl AttributeError, lg))
   \<and> (accel_never_enabled acs \<longrightarrow>
        AcceleratorService_read env acs lg = (Inl AttributeError, lg))
   \<and> (btn_never_enabled bs \<longrightarrow>
        read_btnB env bs lg = (Inl AttributeError, lg)
        \<and> (\<exists>e. fst (ButtonsService_read env bs lg) = Inl e))
   \<and> (btn_dataA bs = None \<longrightarrow>
        read_btnA env bs lg = (Inl AttributeError, lg)
        \<and> ButtonsService_read env bs lg = (Inl AttributeError, lg))
   \<and> read_btnA env (ButtonsService_init p) lg = (Inl AttributeError, lg)"
proof (intro conjI impI)
  assume "temp_never_enabled ts"
  then show "TemperatureService_read env ts lg = (Inl AttributeError, lg)"
    by (simp add: TemperatureService_read_def data_read_def temp_never_enabled_data)
next
  assume "accel_never_enabled acs"
  then show "AcceleratorService_read env acs lg = (Inl AttributeError, lg)"
    by (simp add: AcceleratorService_read_def data_read_def accel_never_enabled_data)
next
  assume b: "btn_never_enabled bs"
  then show "read_btnB env bs lg = (Inl AttributeError, lg)"
    by (simp add: read_btnB_def data_read_def btn_never_enabled_dataB)
  have "read_btnB env bs lg1 = (Inl AttributeError, lg1)" for lg1
    using b by (simp add: read_btnB_def data_read_def btn_never_enabled_dataB)
  then show "\<exists>e. fst (ButtonsService_read env bs lg) = Inl e"
    using read_btnA_fails_or_reads [of env bs lg]
    by (auto simp: ButtonsService_read_def)
next
  assume a: "btn_dataA bs = None"
  then show "read_btnA env bs lg = (Inl AttributeError, lg)"
    by (simp add: read_btnA_def data_read_def)
  then show "ButtonsService_read env bs lg = (Inl AttributeError, lg)"
    by (simp add: ButtonsService_read_def)
next
  show "read_btnA env (ButtonsService_init p) lg = (Inl AttributeError, lg)"
    by (simp add: read_btnA_def data_read_def ButtonsService_init_def)
qed

text \<open>
  The claim as stated fails for \<open>read_btnA()\<close>: on a device without the button B
  characteristic \<open>enable()\<close> raises \<open>IndexError\<close> after it has stored the reference to
  characteristic A, and \<open>read_btnA()\<close> then returns a reading although no \<open>enable()\<close> has
  succeeded.
\<close>

lemma btnB_missing_enable:
  "ButtonsService_enable btnB_missing (ButtonsService_init 0) [] =
     (Inl IndexError,
      \<lparr>btn_periph = 0, btn_service = Some 1, btn_dataA = Some 2, btn_dataB = None\<rparr>,
      [GetServiceByUUID 0 btn_svcUUID, GetCharacteristics 1 dataUUID_btnA,
       GetCharacteristics 1 dataUUID_btnB])"
  by (simp add: ButtonsService_enable_def ButtonsService_init_def resolve_service_def
      resolve_characteristic_def first_characteristic_def getServiceByUUID_def
      getCharacteristics_def btnB_missing_def mock_device_def uuid_btnA_neq_btnB)

theorem read_before_enable_fails_counterexample:
  "ButtonsService_enable btnB_missing (ButtonsService_init 0) [] =
     (Inl IndexError,
      \<lparr>btn_periph = 0, btn_service = Some 1, btn_dataA = Some 2, btn_dataB = None\<rparr>,
      [GetServiceByUUID 0 btn_svcUUID, GetCharacteristics 1 dataUUID_btnA,
       GetCharacteristics 1 dataUUID_btnB])
   \<and> btn_never_enabled
        \<lparr>btn_periph = 0, btn_service = Some 1, btn_dataA = Some 2, btn_dataB = None\<rparr>
   \<and> read_btnA btnB_missing
        \<lparr>btn_periph = 0, btn_service = Some 1, btn_dataA = Some 2, btn_dataB = None\<rparr>
        [GetServiceByUUID 0 btn_svcUUID, GetCharacteristics 1 dataUUID_btnA,
         GetCharacteristics 1 dataUUID_btnB]
     = (Inr 1, [GetServiceByUUID 0 btn_svcUUID, GetCharacteristics 1 dataUUID_btnA,
                GetCharacteristics 1 dataUUID_btnB, CharRead 2])"
proof (intro conjI)
  show "btn_never_enabled
        \<lparr>btn_periph = 0, btn_service = Some 1, btn_dataA = Some 2, btn_dataB = None\<rparr>"
    by (rule btn_failed [OF btn_fresh btnB_missing_enable])
  show "read_btnA btnB_missing
        \<lparr>btn_periph = 0, btn_service = Some 1, btn_dataA = Some 2, btn_dataB = None\<rparr>
        [GetServiceByUUID 0 btn_svcUUID, GetCharacteristics 1 dataUUID_btnA,
         GetCharacteristics 1 dataUUID_btnB]
     = (Inr 1, [GetServiceByUUID 0 btn_svcUUID, GetCharacteristics 1 dataUUID_btnA,
                GetCharacteristics 1 dataUUID_btnB, CharRead 2])"
    by (simp add: read_btnA_def data_read_def char_read_def btnB_missing_def mock_device_def)
qed (rule btnB_missing_enable)

theorem read_before_enable_fails_witness:
  "TemperatureService_read (mock_device [20]) (TemperatureService_init 0) []
     = (Inl AttributeError, [])
   \<and> AcceleratorService_read (mock_device [20]) (AcceleratorService_init 0) []
     = (Inl AttributeError, [])
   \<and> read_btnB btnB_missing
        \<lparr>btn_periph = 0, btn_service = Some 1, btn_dataA = Some 2, btn_dataB = None\<rparr>
        [GetServiceByUUID 0 btn_svcUUID, GetCharacteristics 1 dataUUID_btnA,
         GetCharacteristics 1 dataUUID_btnB]
     = (Inl AttributeError,
        [GetServiceByUUID 0 btn_svcUUID, GetCharacteristics 1 dataUUID_btnA,
         GetCharacteristics 1 dataUUID_btnB])
   \<and> ButtonsService_read (mock_device [20]) (ButtonsService_init 0) []
     = (Inl AttributeError, [])"
proof (intro conjI)
  show "TemperatureService_read (mock_device [20]) (TemperatureService_init 0) []
     = (Inl AttributeError, [])"
    by (rule read_before_enable_fails [THEN conjunct1, rule_format, OF temp_fresh])
  show "AcceleratorService_read (mock_device [20]) (AcceleratorService_init 0) []
     = (Inl AttributeError, [])"
    by (rule read_before_enable_fails [THEN conjunct2, THEN conjunct1, rule_format,
          OF accel_fresh])
  show "read_btnB btnB_missing
        \<lparr>btn_periph = 0, btn_service = Some 1, btn_dataA = Some 2, btn_dataB = None\<rparr>
        [GetServiceByUUID 0 btn_svcUUID, GetCharacteristics 1 dataUUID_btnA,
         GetCharacteristics 1 dataUUID_btnB]
     = (Inl AttributeError,
        [GetServiceByUUID 0 btn_svcUUID, GetCharacteristics 1 dataUUID_btnA,
         GetCharacteristics 1 dataUUID_btnB])"
    by (rule read_before_enable_fails [THEN conjunct2, THEN conjunct2, THEN conjunct1,
          rule_format, OF btn_failed [OF btn_fresh btnB_missing_enable], THEN conjunct1])
  show "ButtonsService_read (mock_device [20]) (ButtonsService_init 0) []
     = (Inl AttributeError, [])"
    by (rule read_before_enable_fails [THEN conjunct2, THEN conjunct2, THEN conjunct2,
          THEN conjunct1, rule_format, THEN conjunct2])
      (simp add: ButtonsService_init_def)
qed

end
